theory Spec2Isabelle
  imports Main "HOL-Library.Word"
begin

unbundle bit_operations_syntax

section \<open>Data model\<close>

subsection \<open>Bytes, floats and exceptions\<close>

text \<open>
  A Python \<open>bytes\<close> or \<open>bytearray\<close> object is a list of 8-bit words. A Python
  \<open>float\<close> is an IEEE 754 binary64 number; it is represented by its 64-bit pattern
  (sign bit 63, exponent bits 62..52, fraction bits 51..0), so that packing it is a
  computation on bits.
\<close>

type_synonym byte = "8 word"
type_synonym bytes = "byte list"
type_synonym pyfloat = "64 word"

text \<open>The exceptions that the functions of \<open>max_prisoner.py\<close> can raise.\<close>

datatype py_error =
    ValueError          \<comment> \<open>\<open>bytearray.index\<close>: subsection not found\<close>
  | AssertionError      \<comment> \<open>the \<open>assert\<close> on the type tag\<close>
  | OverflowError       \<comment> \<open>\<open>struct.pack\<close>: float too large to pack with f format\<close>
  | KeyError            \<comment> \<open>a missing dictionary key\<close>
  | TypeError           \<comment> \<open>\<open>zip\<close> over \<open>None\<close>\<close>
  | OperationalError    \<comment> \<open>sqlite3: no such column\<close>

text \<open>\<open>b"..."\<close> literals and \<open>str.encode("ascii")\<close> on ASCII text.\<close>

definition ascii :: "string \<Rightarrow> bytes" where
  "ascii s = map of_char s"

subsection \<open>Sequence operations of \<open>bytearray\<close>\<close>

text \<open>
  \<open>body_sim.index(key)\<close>: the lowest offset at which \<open>key\<close> occurs, \<open>None\<close> standing
  for the \<open>ValueError\<close>. The empty key is found at offset 0 of every buffer.
\<close>

fun bytes_index :: "bytes \<Rightarrow> bytes \<Rightarrow> nat option" where
  "bytes_index [] key = (if key = [] then Some 0 else None)"
| "bytes_index (b # bs) key =
     (if take (length key) (b # bs) = key then Some 0
      else map_option Suc (bytes_index bs key))"

text \<open>
  \<open>buf[i:j]\<close> for offsets \<open>0 \<le> i \<le> j\<close>: both ends are clipped to the length of the
  buffer, so the slice may be shorter than \<open>j - i\<close>.
\<close>

definition slice :: "bytes \<Rightarrow> nat \<Rightarrow> nat \<Rightarrow> bytes" where
  "slice buf i j = take (j - i) (drop i buf)"

text \<open>
  \<open>buf[i:j] = v\<close> for offsets \<open>0 \<le> i \<le> j\<close>: the clipped range is removed and \<open>v\<close> is
  put in its place, whatever the length of \<open>v\<close>. When \<open>i\<close> is past the end, \<open>v\<close> is
  appended.
\<close>

definition set_slice :: "bytes \<Rightarrow> nat \<Rightarrow> nat \<Rightarrow> bytes \<Rightarrow> bytes" where
  "set_slice buf i j v = take i buf @ v @ drop j buf"

subsection \<open>\<open>struct.pack\<close> for the formats \<open><d\<close>, \<open><f\<close> and \<open><?\<close>\<close>

datatype struct_type = Fmt_d | Fmt_f | Fmt_bool

text \<open>The C value that \<open>struct\<close> converts the argument to, before it is serialised.\<close>

datatype c_value = C_double "64 word" | C_float "32 word" | C_bool bool

text \<open>Little-endian serialisation of a word into \<open>n\<close> bytes, and its inverse.\<close>

fun le_bytes :: "nat \<Rightarrow> 'a::len word \<Rightarrow> bytes" where
  "le_bytes 0 w = []"
| "le_bytes (Suc n) w = ucast w # le_bytes n (drop_bit 8 w)"

fun from_le :: "bytes \<Rightarrow> 'a::len word" where
  "from_le [] = 0"
| "from_le (b # bs) = ucast b OR push_bit 8 (from_le bs)"

text \<open>\<open>m / 2 ^ s\<close> rounded to the nearest integer, ties to even.\<close>

definition round_half_even :: "int \<Rightarrow> nat \<Rightarrow> int" where
  "round_half_even m s =
     (let q = m div 2 ^ s; r = m mod 2 ^ s
      in if 2 * r > 2 ^ s \<or> (2 * r = 2 ^ s \<and> odd q) then q + 1 else q)"

text \<open>
  The magnitude bits (exponent and fraction, without the sign) of the binary32 nearest
  to a finite binary64 with biased exponent \<open>e < 2047\<close> and fraction \<open>m\<close>, as the C cast
  \<open>(float)x\<close> computes it under round-to-nearest-even. A result of \<open>0x7F800000\<close> or more
  is an infinity.
\<close>

definition single_magnitude :: "nat \<Rightarrow> int \<Rightarrow> int" where
  "single_magnitude e m =
     (if e = 0 then 0
      else if 897 \<le> e then int (e - 897) * 2 ^ 23 + round_half_even (2 ^ 52 + m) 29
      else round_half_even (2 ^ 52 + m) (926 - e))"

text \<open>
  \<open>PyFloat_Pack4\<close>: \<open>float y = (float)x\<close>, and an \<open>OverflowError\<close> when \<open>y\<close> is
  infinite and \<open>x\<close> is not. An infinity stays one; a NaN stays a quiet NaN with the
  leading bits of its payload.
\<close>

definition double_to_single :: "pyfloat \<Rightarrow> py_error + 32 word" where
  "double_to_single x =
     (let sign = (if bit x 63 then 2 ^ 31 else 0) :: 32 word;
          e = unat (take_bit 11 (drop_bit 52 x));
          m = uint (take_bit 52 x)
      in if e = 2047 then
           (if m = 0 then Inr (sign OR 0x7F800000)
            else Inr (sign OR 0x7FC00000 OR of_int (m div 2 ^ 29)))
         else if single_magnitude e m \<ge> 0x7F800000 then Inl OverflowError
         else Inr (sign OR of_int (single_magnitude e m)))"

text \<open>\<open>bool(x)\<close> for a float: \<open>x != 0.0\<close>, so both zeros are false and a NaN is true.\<close>

definition float_bool :: "pyfloat \<Rightarrow> bool" where
  "float_bool x = (take_bit 63 x \<noteq> 0)"

definition convert :: "struct_type \<Rightarrow> pyfloat \<Rightarrow> py_error + c_value" where
  "convert fmt x =
     (case fmt of
        Fmt_d \<Rightarrow> Inr (C_double x)
      | Fmt_f \<Rightarrow> (case double_to_single x of Inl e \<Rightarrow> Inl e | Inr y \<Rightarrow> Inr (C_float y))
      | Fmt_bool \<Rightarrow> Inr (C_bool (float_bool x)))"

fun serialise :: "c_value \<Rightarrow> bytes" where
  "serialise (C_double x) = le_bytes 8 x"
| "serialise (C_float y) = le_bytes 4 y"
| "serialise (C_bool b) = [if b then 1 else 0]"

definition struct_pack :: "struct_type \<Rightarrow> pyfloat \<Rightarrow> py_error + bytes" where
  "struct_pack fmt x =
     (case convert fmt x of Inl e \<Rightarrow> Inl e | Inr c \<Rightarrow> Inr (serialise c))"

text \<open>\<open>struct.calcsize\<close>.\<close>

fun calcsize :: "struct_type \<Rightarrow> nat" where
  "calcsize Fmt_d = 8"
| "calcsize Fmt_f = 4"
| "calcsize Fmt_bool = 1"

text \<open>
  \<open>struct.unpack\<close>, which needs exactly \<open>calcsize\<close> bytes. The result is kept at the
  precision of the format; Python widens a binary32 to a \<open>float\<close> without loss.
\<close>

definition struct_unpack :: "struct_type \<Rightarrow> bytes \<Rightarrow> c_value option" where
  "struct_unpack fmt bs =
     (if length bs \<noteq> calcsize fmt then None
      else case fmt of
        Fmt_d \<Rightarrow> Some (C_double (from_le bs))
      | Fmt_f \<Rightarrow> Some (C_float (from_le bs))
      | Fmt_bool \<Rightarrow> Some (C_bool (bs \<noteq> [0])))"

subsection \<open>Property types\<close>

record PropertyType =
  name :: bytes
  width :: nat
  struct_type :: struct_type

definition DoubleProperty :: PropertyType where
  "DoubleProperty = \<lparr>name = ascii ''DoubleProperty'', width = 8, struct_type = Fmt_d\<rparr>"

definition FloatProperty :: PropertyType where
  "FloatProperty = \<lparr>name = ascii ''FloatProperty'', width = 4, struct_type = Fmt_f\<rparr>"

definition BoolProperty :: PropertyType where
  "BoolProperty = \<lparr>name = ascii ''BoolProperty'', width = 1, struct_type = Fmt_bool\<rparr>"

definition supported :: "PropertyType \<Rightarrow> bool" where
  "supported pt = (pt = DoubleProperty \<or> pt = FloatProperty \<or> pt = BoolProperty)"

section \<open>The binary field patcher\<close>

definition BODY_SIM_KEY_PADDING :: nat where
  "BODY_SIM_KEY_PADDING = 5"

definition BODY_SIM_VALUE_PADDING :: nat where
  "BODY_SIM_VALUE_PADDING = 10"

text \<open>The offset of the type tag and of the value, for a key found at \<open>key_offset\<close>.\<close>

definition tag_offset :: "nat \<Rightarrow> bytes \<Rightarrow> nat" where
  "tag_offset key_offset key = key_offset + length key + BODY_SIM_KEY_PADDING"

definition value_offset :: "nat \<Rightarrow> bytes \<Rightarrow> PropertyType \<Rightarrow> nat" where
  "value_offset key_offset key property_type =
     key_offset + length key + BODY_SIM_KEY_PADDING + length (name property_type)
       + BODY_SIM_VALUE_PADDING"

text \<open>
  \<open>update_body_sim\<close> mutates \<open>body_sim\<close> in place and returns nothing. The model
  returns the outcome (an exception or a normal return) together with the buffer as
  the call leaves it. The \<open>assert\<close> is executed, as Python does unless it runs with
  \<open>-O\<close>. All offsets are sums of lengths and constants, hence natural numbers, and
  so is the \<open>width\<close> of the three property types.
\<close>

definition update_body_sim ::
  "bytes \<Rightarrow> bytes \<Rightarrow> pyfloat \<Rightarrow> PropertyType \<Rightarrow> (py_error + unit) \<times> bytes" where
  "update_body_sim body_sim key val property_type =
     (case bytes_index body_sim key of
        None \<Rightarrow> (Inl ValueError, body_sim)
      | Some key_offset \<Rightarrow>
          if slice body_sim (tag_offset key_offset key)
               (tag_offset key_offset key + length (name property_type))
             \<noteq> name property_type
          then (Inl AssertionError, body_sim)
          else
            (case struct_pack (struct_type property_type) val of
               Inl e \<Rightarrow> (Inl e, body_sim)
             | Inr value_bytes \<Rightarrow>
                 (Inr (),
                  set_slice body_sim
                    (value_offset key_offset key property_type)
                    (value_offset key_offset key property_type + width property_type)
                    value_bytes)))"

text \<open>
  \<open>key\<close> occurs in \<open>buf\<close> at offset \<open>i\<close>: the bytes of the key are there, in full.
\<close>

definition occurs_at :: "bytes \<Rightarrow> bytes \<Rightarrow> nat \<Rightarrow> bool" where
  "occurs_at buf key i =
     (i + length key \<le> length buf \<and> take (length key) (drop i buf) = key)"

section \<open>The database\<close>

subsection \<open>Values, tables and the connection\<close>

text \<open>
  A value of an SQLite column, as the \<open>sqlite3\<close> module hands it to Python:
  \<open>None\<close>, \<open>int\<close>, \<open>float\<close>, \<open>str\<close> or \<open>bytes\<close>.
\<close>

datatype sqlval = Null | Integer int | Real pyfloat | Text string | Blob bytes

text \<open>
  An SQLite \<open>INTEGER\<close> is a signed 64-bit integer. Binding a Python \<open>int\<close> outside
  that range to a parameter raises \<open>OverflowError\<close>; the other values bind as they are.
\<close>

definition fits_int64 :: "int \<Rightarrow> bool" where
  "fits_int64 i = (- (2 ^ 63) \<le> i \<and> i < 2 ^ 63)"

definition bindable :: "sqlval \<Rightarrow> bool" where
  "bindable v = (case v of Integer i \<Rightarrow> fits_int64 i | _ \<Rightarrow> True)"

text \<open>
  The comparison \<open>column = ?\<close> of a \<open>WHERE\<close> clause, for operands of one storage
  class: never true on \<open>NULL\<close>, equality of integers, and equality of texts byte by
  byte (the default collation). SQLite also compares an \<open>INTEGER\<close> with a \<open>REAL\<close> by
  value and converts a text operand under the affinity of the column; both are outside
  this model, which is used on the tables and ids that \<open>wf_prisoner\<close> and
  \<open>wf_prisoner_skill\<close> below describe.
\<close>

definition sql_eq :: "sqlval \<Rightarrow> sqlval \<Rightarrow> bool" where
  "sql_eq a b = (a \<noteq> Null \<and> a = b)"

text \<open>
  The table \<open>prisoner\<close> is read with \<open>SELECT *\<close>, so its columns are kept by name:
  a list of column names and, for each row, the list of its values in that order.
\<close>

record table =
  columns :: "string list"
  rows :: "sqlval list list"

definition cell :: "string list \<Rightarrow> sqlval list \<Rightarrow> string \<Rightarrow> sqlval option" where
  "cell cols r c = map_of (zip cols r) c"

definition set_cell :: "string list \<Rightarrow> sqlval list \<Rightarrow> string \<Rightarrow> sqlval \<Rightarrow> sqlval list" where
  "set_cell cols r c v = map2 (\<lambda>k x. if k = c then v else x) cols r"

text \<open>The condition \<open>WHERE id = ?\<close> on a row of \<open>prisoner\<close>.\<close>

definition has_id :: "string list \<Rightarrow> sqlval \<Rightarrow> sqlval list \<Rightarrow> bool" where
  "has_id cols v r = (case cell cols r ''id'' of None \<Rightarrow> False | Some x \<Rightarrow> sql_eq x v)"

text \<open>
  The statements on \<open>prisoner_skill\<close> name all the columns they use; a row holds
  those four values.
\<close>

record skill_row =
  skill_prisoner_id :: sqlval
  skill_name :: sqlval
  skill_level :: sqlval
  skill_experience :: sqlval

record database =
  prisoner :: table
  prisoner_skill :: "skill_row list"

text \<open>
  Modelled from the spec: the schema of the database, which the repository does not
  contain. A record is identified by a numeric id and holds a binary blob; a skill entry
  is (record id, name, level, experience), with integer level and experience. So the
  \<open>id\<close> of every row of \<open>prisoner\<close> is an integer, every row has a value for each of
  the distinct columns, which are named as the statements spell them, and the
  \<open>prisoner_id\<close> of a skill row is an integer or \<open>NULL\<close>.
\<close>

definition integer_id :: "sqlval \<Rightarrow> bool" where
  "integer_id v = (case v of Integer i \<Rightarrow> fits_int64 i | _ \<Rightarrow> False)"

definition wf_prisoner :: "table \<Rightarrow> bool" where
  "wf_prisoner tbl =
     (''id'' \<in> set (columns tbl) \<and> distinct (columns tbl)
      \<and> list_all
           (\<lambda>r. length r = length (columns tbl)
                \<and> (case cell (columns tbl) r ''id'' of
                      None \<Rightarrow> False
                    | Some v \<Rightarrow> integer_id v))
           (rows tbl))"

definition wf_prisoner_skill :: "skill_row list \<Rightarrow> bool" where
  "wf_prisoner_skill tbl =
     list_all (\<lambda>r. skill_prisoner_id r = Null \<or> integer_id (skill_prisoner_id r)) tbl"

text \<open>The cursor that \<open>con.execute\<close> returns for an \<open>UPDATE\<close>.\<close>

record cursor =
  rowcount :: int

text \<open>A dictionary comprehension over key-value pairs: a later pair replaces an earlier one.\<close>

definition dict_of :: "('k \<times> 'v) list \<Rightarrow> ('k \<rightharpoonup> 'v)" where
  "dict_of kvs = fold (\<lambda>(k, v) m. m(k \<mapsto> v)) kvs Map.empty"

subsection \<open>The record accessor\<close>

text \<open>
  \<open>con.execute\<close> prepares the statement (an unknown column is an
  \<open>OperationalError\<close>), then binds the parameters (an \<open>int\<close> outside 64 bits is an
  \<open>OverflowError\<close>), then runs it.

  \<open>load_prisoner\<close>: \<open>cur.fetchone()\<close> is the first row of the result, or \<open>None\<close> when
  there is none, and \<open>zip\<close> over \<open>None\<close> raises a \<open>TypeError\<close>.
\<close>

definition load_prisoner :: "database \<Rightarrow> int \<Rightarrow> py_error + (string \<rightharpoonup> sqlval)" where
  "load_prisoner con ident =
     (let cols = columns (prisoner con)
      in if ''id'' \<notin> set cols then Inl OperationalError
         else if \<not> bindable (Integer ident) then Inl OverflowError
         else case find (has_id cols (Integer ident)) (rows (prisoner con)) of
                None \<Rightarrow> Inl TypeError
              | Some r \<Rightarrow> Inr (dict_of (zip cols r)))"

text \<open>
  \<open>save_prisoner\<close> returns the cursor of the \<open>UPDATE\<close>; the model returns it with the
  database as the statement leaves it.
\<close>

definition save_prisoner ::
  "database \<Rightarrow> (string \<rightharpoonup> sqlval) \<Rightarrow> py_error + cursor \<times> database" where
  "save_prisoner con prisoner_dict =
     (case prisoner_dict ''body_simulation'' of
        None \<Rightarrow> Inl KeyError
      | Some b \<Rightarrow>
          (case prisoner_dict ''id'' of
             None \<Rightarrow> Inl KeyError
           | Some i \<Rightarrow>
               (let cols = columns (prisoner con)
                in if ''body_simulation'' \<notin> set cols \<or> ''id'' \<notin> set cols
                   then Inl OperationalError
                   else if \<not> (bindable b \<and> bindable i) then Inl OverflowError
                   else Inr
                     (\<lparr>rowcount = int (length (filter (has_id cols i) (rows (prisoner con))))\<rparr>,
                      con\<lparr>prisoner := (prisoner con)\<lparr>rows :=
                        map (\<lambda>r. if has_id cols i r then set_cell cols r ''body_simulation'' b
                                  else r)
                          (rows (prisoner con))\<rparr>\<rparr>))))"

subsection \<open>The skill updater\<close>

text \<open>The configured skills of the script.\<close>

definition SET_SKILLS :: "string \<rightharpoonup> int \<times> int" where
  "SET_SKILLS = map_of
     [(''BoxingSkill'', (3, 10000000)),
      (''AwarenessSkill'', (3, 10000000)),
      (''RiflesSkill'', (3, 10000000)),
      (''SnipingSkill'', (3, 10000000)),
      (''CamouflageSkill'', (3, 10000000)),
      (''SurvivalSkill'', (3, 10000000)),
      (''MeleeWeaponsSkill'', (3, 10000000)),
      (''HandgunSkill'', (3, 10000000)),
      (''RunningSkill'', (3, 10000000)),
      (''EnduranceSkill'', (3, 10000000)),
      (''TacticsSkill'', (3, 10000000)),
      (''CookingSkill'', (3, 10000000)),
      (''ThieverySkill'', (3, 10000000)),
      (''ArcherySkill'', (3, 10000000)),
      (''DrivingSkill'', (3, 10000000)),
      (''EngineeringSkill'', (3, 10000000)),
      (''DemolitionSkill'', (3, 10000000)),
      (''MedicalSkill'', (3, 10000000)),
      (''MotorcycleSkill'', (3, 10000000)),
      (''StealthSkill'', (3, 10000000)),
      (''AviationSkill'', (3, 10000000)),
      (''ResistanceSkill'', (3, 10000000)),
      (''FarmingSkill'', (3, 10000000))]"

text \<open>
  One round of the loop of \<open>update_skills\<close>, for the name \<open>nm\<close> that the \<open>SELECT\<close>
  yields: a name that is no key of the dictionary is skipped (a name that is no string
  is never a key), otherwise the \<open>UPDATE\<close> binds the level, the experience, the id
  and the name, and rewrites every row of the prisoner with that name.
\<close>

definition update_skill ::
  "(string \<rightharpoonup> int \<times> int) \<Rightarrow> sqlval \<Rightarrow> skill_row list \<Rightarrow> sqlval
     \<Rightarrow> py_error + skill_row list" where
  "update_skill set_skills pid tbl nm =
     (case nm of
        Text s \<Rightarrow>
          (case set_skills s of
             None \<Rightarrow> Inr tbl
           | Some (new_level, new_experience) \<Rightarrow>
               if \<not> (bindable (Integer new_level) \<and> bindable (Integer new_experience)
                      \<and> bindable pid \<and> bindable nm)
               then Inl OverflowError
               else Inr
                 (map (\<lambda>r. if sql_eq (skill_prisoner_id r) pid \<and> sql_eq (skill_name r) nm
                           then r\<lparr>skill_level := Integer new_level,
                                  skill_experience := Integer new_experience\<rparr>
                           else r) tbl))
      | _ \<Rightarrow> Inr tbl)"

text \<open>The loop over the names: it stops at the first exception, with the rows as they are then.\<close>

fun update_skills_loop ::
  "(string \<rightharpoonup> int \<times> int) \<Rightarrow> sqlval \<Rightarrow> skill_row list \<Rightarrow> sqlval list
     \<Rightarrow> (py_error + unit) \<times> skill_row list" where
  "update_skills_loop set_skills pid tbl [] = (Inr (), tbl)"
| "update_skills_loop set_skills pid tbl (nm # nms) =
     (case update_skill set_skills pid tbl nm of
        Inl e \<Rightarrow> (Inl e, tbl)
      | Inr tbl' \<Rightarrow> update_skills_loop set_skills pid tbl' nms)"

text \<open>
  \<open>update_skills\<close> reads the module-level dictionary \<open>SET_SKILLS\<close>, which the user of
  the script edits; it is a parameter here. The function returns nothing: the model
  returns the outcome and the database as the call leaves it. The names come from the
  rows of the prisoner, in table order; the \<open>UPDATE\<close>s change neither the name nor the
  owner of a row, so the names can be listed before the loop runs.
\<close>

definition update_skills ::
  "(string \<rightharpoonup> int \<times> int) \<Rightarrow> database \<Rightarrow> (string \<rightharpoonup> sqlval)
     \<Rightarrow> (py_error + unit) \<times> database" where
  "update_skills set_skills con prisoner_dict =
     (case prisoner_dict ''id'' of
        None \<Rightarrow> (Inl KeyError, con)
      | Some pid \<Rightarrow>
          if \<not> bindable pid then (Inl OverflowError, con)
          else
            (case update_skills_loop set_skills pid (prisoner_skill con)
                    (map skill_name
                       (filter (\<lambda>r. sql_eq (skill_prisoner_id r) pid) (prisoner_skill con)))
             of (outcome, tbl') \<Rightarrow> (outcome, con\<lparr>prisoner_skill := tbl'\<rparr>)))"

text \<open>
  What the loop of \<open>update_skills\<close> has made of a row once the names in \<open>D\<close> have had
  their round: a row of the prisoner whose name is in \<open>D\<close> and is a key of the
  dictionary holds the configured pair, every other row is as it was.
\<close>

definition override_row ::
  "(string \<rightharpoonup> int \<times> int) \<Rightarrow> sqlval \<Rightarrow> sqlval set \<Rightarrow> skill_row \<Rightarrow> skill_row" where
  "override_row set_skills pid D r =
     (if sql_eq (skill_prisoner_id r) pid \<and> skill_name r \<in> D
      then (case skill_name r of
              Text s \<Rightarrow>
                (case set_skills s of
                   None \<Rightarrow> r
                 | Some (l, e) \<Rightarrow> r\<lparr>skill_level := Integer l, skill_experience := Integer e\<rparr>)
            | _ \<Rightarrow> r)
      else r)"

section \<open>Sample data\<close>

text \<open>
  The key \<open>BaseStrength\<close> of \<open>SET_ATTRIBUTES\<close>, the floats \<open>1.0\<close>, \<open>8.0\<close> and
  \<open>2.0 ** 128\<close>, and three blobs: a complete field holding \<open>1.0\<close> as a double, a blob
  that ends right after the type tag of a double, and one that ends right after the
  type tag of a float.
\<close>

definition BaseStrength :: bytes where
  "BaseStrength = ascii ''BaseStrength''"

definition float_1 :: pyfloat where
  "float_1 = 0x3FF0000000000000"

definition float_8 :: pyfloat where
  "float_8 = 0x4020000000000000"

definition float_2_pow_128 :: pyfloat where
  "float_2_pow_128 = 0x47F0000000000000"

definition complete_blob :: bytes where
  "complete_blob =
     ascii ''BaseStrength'' @ replicate 5 0 @ ascii ''DoubleProperty'' @ replicate 10 0
       @ le_bytes 8 float_1"

definition truncated_blob :: bytes where
  "truncated_blob = ascii ''BaseStrength'' @ replicate 5 0 @ ascii ''DoubleProperty''"

definition truncated_float_blob :: bytes where
  "truncated_float_blob = ascii ''BaseStrength'' @ replicate 5 0 @ ascii ''FloatProperty''"

text \<open>A database with two prisoners and the skill rows of the first.\<close>

definition sample_db :: database where
  "sample_db =
     \<lparr>prisoner =
        \<lparr>columns = [''id'', ''user_profile_id'', ''body_simulation''],
         rows = [[Integer 1, Integer 10, Blob complete_blob],
                 [Integer 2, Null, Blob truncated_blob]]\<rparr>,
      prisoner_skill =
        [\<lparr>skill_prisoner_id = Integer 1, skill_name = Text ''A'',
          skill_level = Integer 0, skill_experience = Integer 0\<rparr>,
         \<lparr>skill_prisoner_id = Integer 1, skill_name = Text ''B'',
          skill_level = Integer 1, skill_experience = Integer 100\<rparr>]\<rparr>"

definition sample_overrides :: "string \<rightharpoonup> int \<times> int" where
  "sample_overrides = [''A'' \<mapsto> (3, 10000000)]"

text \<open>An experience of \<open>2 ** 63\<close>, one more than the largest SQLite integer.\<close>

definition large_overrides :: "string \<rightharpoonup> int \<times> int" where
  "large_overrides = [''A'' \<mapsto> (3, 9223372036854775808)]"

definition sample_prisoner :: "string \<rightharpoonup> sqlval" where
  "sample_prisoner =
     [''id'' \<mapsto> Integer 1, ''user_profile_id'' \<mapsto> Integer 10,
      ''body_simulation'' \<mapsto> Blob truncated_blob]"

definition absent_prisoner :: "string \<rightharpoonup> sqlval" where
  "absent_prisoner = [''id'' \<mapsto> Integer 7, ''body_simulation'' \<mapsto> Blob complete_blob]"

section \<open>Lemmas\<close>

lemma occurs_at_0: "occurs_at buf key 0 \<longleftrightarrow> take (length key) buf = key"
  unfolding occurs_at_def
  by (metis add_0 drop0 length_take min.absorb_iff2 min.commute)

lemma occurs_at_Suc: "occurs_at (b # bs) key (Suc i) \<longleftrightarrow> occurs_at bs key i"
  by (simp add: occurs_at_def)

lemma occurs_at_Nil: "occurs_at [] key i \<longleftrightarrow> key = [] \<and> i = 0"
  by (auto simp: occurs_at_def)

lemma bytes_index_None: "bytes_index buf key = None \<longleftrightarrow> (\<forall>i. \<not> occurs_at buf key i)"
proof (induction buf)
  case Nil
  show ?case by (simp add: occurs_at_Nil)
next
  case (Cons b bs)
  show ?case
  proof (cases "take (length key) (b # bs) = key")
    case True
    then have "occurs_at (b # bs) key 0" by (simp only: occurs_at_0)
    with True show ?thesis by auto
  next
    case False
    then have n0: "\<not> occurs_at (b # bs) key 0" by (simp only: occurs_at_0) simp
    have "(\<forall>i. \<not> occurs_at (b # bs) key i) \<longleftrightarrow> (\<forall>i. \<not> occurs_at bs key i)"
    proof
      assume a: "\<forall>i. \<not> occurs_at (b # bs) key i"
      show "\<forall>i. \<not> occurs_at bs key i"
      proof
        fix i from a have "\<not> occurs_at (b # bs) key (Suc i)" by blast
        then show "\<not> occurs_at bs key i" by (simp only: occurs_at_Suc) simp
      qed
    next
      assume a: "\<forall>i. \<not> occurs_at bs key i"
      show "\<forall>i. \<not> occurs_at (b # bs) key i"
      proof
        fix i show "\<not> occurs_at (b # bs) key i"
          using n0 a by (cases i) (simp_all add: occurs_at_Suc)
      qed
    qed
    with False Cons.IH show ?thesis by simp
  qed
qed

lemma bytes_index_Some:
  "bytes_index buf key = Some k \<longleftrightarrow> occurs_at buf key k \<and> (\<forall>j<k. \<not> occurs_at buf key j)"
proof (induction buf arbitrary: k)
  case Nil
  show ?case by (auto simp: occurs_at_Nil)
next
  case (Cons b bs)
  show ?case
  proof (cases "take (length key) (b # bs) = key")
    case True
    then have o0: "occurs_at (b # bs) key 0" by (simp only: occurs_at_0)
    have "bytes_index (b # bs) key = Some 0" using True by simp
    then show ?thesis using o0 by (cases k) auto
  next
    case False
    then have n0: "\<not> occurs_at (b # bs) key 0" by (simp only: occurs_at_0) simp
    show ?thesis
    proof (cases k)
      case 0
      then show ?thesis using False n0 by auto
    next
      case (Suc k')
      have "(\<forall>j<Suc k'. \<not> occurs_at (b # bs) key j) \<longleftrightarrow> (\<forall>j<k'. \<not> occurs_at bs key j)"
      proof
        assume a: "\<forall>j<Suc k'. \<not> occurs_at (b # bs) key j"
        show "\<forall>j<k'. \<not> occurs_at bs key j"
        proof (intro allI impI)
          fix j assume "j < k'"
          with a have "\<not> occurs_at (b # bs) key (Suc j)" by simp
          then show "\<not> occurs_at bs key j" by (simp only: occurs_at_Suc) simp
        qed
      next
        assume a: "\<forall>j<k'. \<not> occurs_at bs key j"
        show "\<forall>j<Suc k'. \<not> occurs_at (b # bs) key j"
        proof (intro allI impI)
          fix j assume "j < Suc k'"
          then show "\<not> occurs_at (b # bs) key j"
            using n0 a by (cases j) (simp_all add: occurs_at_Suc)
        qed
      qed
      with False Suc Cons.IH [of k'] show ?thesis by (auto simp: occurs_at_Suc)
    qed
  qed
qed

lemma from_le_le_bytes:
  "(from_le (le_bytes n w) :: 'a::len word) = take_bit (8 * n) (w :: 'a word)"
proof (induction n arbitrary: w)
  case 0
  show ?case by simp
next
  case (Suc n)
  show ?case
    apply (simp add: Suc)
    apply (rule bit_eqI)
    apply (auto simp: bit_simps)
    done
qed

lemma length_le_bytes: "length (le_bytes n w) = n"
  by (induction n arbitrary: w) simp_all

lemma struct_pack_length: "struct_pack fmt v = Inr vb \<Longrightarrow> length vb = calcsize fmt"
  by (cases fmt)
     (auto simp: struct_pack_def convert_def length_le_bytes split: sum.splits)

lemma supported_width: "supported pt \<Longrightarrow> width pt = calcsize (struct_type pt)"
  by (auto simp: supported_def DoubleProperty_def FloatProperty_def BoolProperty_def)

lemma struct_unpack_serialise:
  "convert fmt v = Inr c \<Longrightarrow> struct_unpack fmt (serialise c) = Some c"
  by (cases fmt)
     (auto simp: convert_def struct_unpack_def length_le_bytes from_le_le_bytes
        take_bit_word_eq_self split: sum.splits if_splits)

lemma update_body_sim_Inr:
  "update_body_sim buf key v pt = (Inr (), buf') \<longleftrightarrow>
     (\<exists>k vb. bytes_index buf key = Some k
        \<and> slice buf (tag_offset k key) (tag_offset k key + length (name pt)) = name pt
        \<and> struct_pack (struct_type pt) v = Inr vb
        \<and> buf' = set_slice buf (value_offset k key pt) (value_offset k key pt + width pt) vb)"
  by (auto simp: update_body_sim_def split: option.splits sum.splits)

lemma update_body_sim_Inl:
  "update_body_sim buf key v pt = (Inl e, buf') \<Longrightarrow> buf' = buf"
  by (auto simp: update_body_sim_def split: option.splits sum.splits if_splits)

lemma value_offset_eq:
  "value_offset k key pt = k + length key + 5 + length (name pt) + 10"
  by (simp add: value_offset_def BODY_SIM_KEY_PADDING_def BODY_SIM_VALUE_PADDING_def)

lemma tag_offset_eq: "tag_offset k key = k + length key + 5"
  by (simp add: tag_offset_def BODY_SIM_KEY_PADDING_def)

lemma slice_set_slice:
  "i \<le> length buf \<Longrightarrow> slice (set_slice buf i j vb) i (i + length vb) = vb"
  by (simp add: slice_def set_slice_def)


lemma occurs_at_prefix:
  assumes "take n a = take n b" "n \<le> length a" "n \<le> length b" "j + length key \<le> n"
  shows "occurs_at a key j \<longleftrightarrow> occurs_at b key j"
proof -
  have "take (length key) (drop j a) = take (length key) (drop j (take n a))" for a :: bytes
    using assms(4) by (simp add: drop_take min_def)
  then have "take (length key) (drop j a) = take (length key) (drop j b)"
    using assms(1) by metis
  then show ?thesis using assms by (simp add: occurs_at_def)
qed

lemma slice_prefix:
  assumes "take n a = take n b" "j \<le> n"
  shows "slice a i j = slice b i j"
proof -
  have "slice a i j = slice (take n a) i j" for a :: bytes
    using assms(2) by (simp add: slice_def drop_take min_def)
  then show ?thesis using assms(1) by metis
qed


lemma double_to_single_Inl: "double_to_single v = Inl e \<Longrightarrow> e = OverflowError"
  by (auto simp: double_to_single_def Let_def split: if_splits)

lemma struct_pack_Inr:
  assumes "fmt = Fmt_f \<longrightarrow> double_to_single v \<noteq> Inl OverflowError"
  shows "\<exists>vb. struct_pack fmt v = Inr vb"
proof (cases fmt)
  case Fmt_f
  with assms double_to_single_Inl [of v] obtain y where "double_to_single v = Inr y"
    by (cases "double_to_single v") auto
  with Fmt_f show ?thesis by (simp add: struct_pack_def convert_def)
qed (simp_all add: struct_pack_def convert_def)


lemma override_row_fields [simp]:
  "skill_prisoner_id (override_row S pid D r) = skill_prisoner_id r"
  "skill_name (override_row S pid D r) = skill_name r"
  by (auto simp: override_row_def split: sqlval.splits option.splits)

lemma override_row_empty: "override_row S pid {} r = r"
  by (simp add: override_row_def)

lemma update_skill_override:
  assumes "\<forall>s l e. S s = Some (l, e) \<longrightarrow> fits_int64 l \<and> fits_int64 e" and "bindable pid"
  shows "update_skill S pid (map (override_row S pid D) tbl) nm =
     Inr (map (override_row S pid (insert nm D)) tbl)"
proof (cases nm)
  case (Text s)
  show ?thesis
  proof (cases "S s")
    case None
    have "override_row S pid (insert nm D) r = override_row S pid D r" for r
      using Text None by (auto simp: override_row_def split: sqlval.splits option.splits)
    then show ?thesis using Text None by (simp add: update_skill_def)
  next
    case (Some le)
    obtain l e where le: "le = (l, e)" by (cases le)
    have ok: "bindable (Integer l)" "bindable (Integer e)" "bindable nm"
      using assms(1) Some le Text by (auto simp: bindable_def)
    have "(if sql_eq (skill_prisoner_id r) pid \<and> sql_eq (skill_name r) nm
           then (override_row S pid D r)\<lparr>skill_level := Integer l, skill_experience := Integer e\<rparr>
           else override_row S pid D r) = override_row S pid (insert nm D) r" for r
      using Text Some le
      by (auto simp: override_row_def sql_eq_def split: sqlval.splits option.splits)
    then show ?thesis using Text Some le ok assms(2) by (simp add: update_skill_def)
  qed
qed (auto simp: update_skill_def override_row_def intro!: map_cong split: sqlval.splits)

lemma update_skills_loop_override:
  assumes "\<forall>s l e. S s = Some (l, e) \<longrightarrow> fits_int64 l \<and> fits_int64 e" and "bindable pid"
  shows "update_skills_loop S pid (map (override_row S pid D) tbl) ns =
     (Inr (), map (override_row S pid (D \<union> set ns)) tbl)"
proof (induction ns arbitrary: D)
  case Nil
  show ?case by simp
next
  case (Cons n ns)
  show ?case by (simp add: update_skill_override [OF assms] Cons.IH)
qed

lemma update_skills_map:
  assumes "prisoner_dict ''id'' = Some pid" and "bindable pid"
    and "\<forall>s l e. S s = Some (l, e) \<longrightarrow> fits_int64 l \<and> fits_int64 e"
  shows "update_skills S con prisoner_dict =
     (Inr (), con\<lparr>prisoner_skill := map (override_row S pid UNIV) (prisoner_skill con)\<rparr>)"
proof -
  let ?tbl = "prisoner_skill con"
  let ?ns = "map skill_name (filter (\<lambda>r. sql_eq (skill_prisoner_id r) pid) ?tbl)"
  have "update_skills_loop S pid (map (override_row S pid {}) ?tbl) ?ns =
      (Inr (), map (override_row S pid ({} \<union> set ?ns)) ?tbl)"
    by (rule update_skills_loop_override [OF assms(3,2)])
  moreover have "map (override_row S pid {}) ?tbl = ?tbl"
    by (rule map_idI) (simp add: override_row_empty)
  moreover have "map (override_row S pid ({} \<union> set ?ns)) ?tbl = map (override_row S pid UNIV) ?tbl"
    by (rule map_cong) (auto simp: override_row_def)
  ultimately show ?thesis using assms(1,2) by (simp add: update_skills_def)
qed

lemma cell_set_cell:
  "cell cols (set_cell cols r c v) c' =
     (if c' = c then (if cell cols r c = None then None else Some v) else cell cols r c')"
proof (induction cols arbitrary: r)
  case Nil
  show ?case by (simp add: cell_def set_cell_def)
next
  case (Cons k ks)
  show ?case
  proof (cases r)
    case Nil
    then show ?thesis by (simp add: cell_def set_cell_def)
  next
    case (Cons x xs)
    with Cons.IH [of xs] show ?thesis
      by (simp add: cell_def set_cell_def cong: if_cong)
  qed
qed

lemma cell_Some_iff:
  "length r = length cols \<Longrightarrow> cell cols r c \<noteq> None \<longleftrightarrow> c \<in> set cols"
  using map_fst_zip [of cols r]
  by (auto simp: cell_def map_of_eq_None_iff simp flip: set_map)

lemma fold_upd_map_of:
  "fold (\<lambda>(k, v) m. m(k \<mapsto> v)) kvs m0 = m0 ++ map_of (rev kvs)"
  by (induction kvs arbitrary: m0) (auto simp: map_add_def fun_eq_iff split: option.splits)

lemma dict_of_distinct:
  assumes "distinct (map fst kvs)"
  shows "dict_of kvs = map_of kvs"
proof -
  have "dict_of kvs = map_of (rev kvs)"
    by (simp add: dict_of_def fold_upd_map_of)
  also have "\<dots> = map_of kvs"
    using assms by (intro map_of_inject_set [THEN iffD2]) (simp_all add: rev_map [symmetric])
  finally show ?thesis .
qed

lemma find_unique:
  assumes "r \<in> set xs" "P r" "\<forall>r'\<in>set xs. P r' \<longrightarrow> r' = r"
  shows "find P xs = Some r"
proof (cases "find P xs")
  case None
  with assms(1,2) show ?thesis by (auto simp: find_None_iff)
next
  case (Some x)
  then have "P x" "x \<in> set xs" by (auto simp: find_Some_iff in_set_conv_nth)
  with assms(3) Some show ?thesis by auto
qed

lemma has_id_Integer:
  "has_id cols (Integer i) r \<longleftrightarrow> cell cols r ''id'' = Some (Integer i)"
  by (auto simp: has_id_def sql_eq_def split: option.splits)

lemma wf_prisoner_row:
  assumes "wf_prisoner tbl" and "r \<in> set (rows tbl)"
  shows "length r = length (columns tbl)"
  using assms by (auto simp: wf_prisoner_def list_all_iff)


section \<open>Claims about the binary field patcher\<close>

text \<open>
  In the theorems below \<open>k\<close> is the first offset at which the key occurs, the offset
  that \<open>body_sim.index(key)\<close> returns (lemma \<open>bytes_index_Some\<close>); the type tag is
  looked for at \<open>k + length key + 5\<close> and the value window starts at
  \<open>k + length key + 5 + length (name pt) + 10\<close>.
\<close>

text \<open>
  C1, as amended. When the patch succeeds for a supported type and the value offset
  \<open>k + length key + 5 + length (name pt) + 10\<close>, counted from the first occurrence \<open>k\<close>
  of the key, is not past the end of the buffer, then the \<open>width\<close> bytes read back
  from that offset are the bytes that \<open>struct.pack\<close> made of the value, and unpacking
  them gives the value as converted to the type: for a double the float itself, bit for
  bit. (When the offset is past the end the value bytes are appended instead and cannot
  be read back from the offset, as the counterexample below shows.)
\<close>

theorem C1_round_trip:
  assumes "supported pt"
    and "update_body_sim buf key v pt = (Inr (), buf')"
    and "occurs_at buf key k" and "\<forall>j<k. \<not> occurs_at buf key j"
    and "k + length key + 5 + length (name pt) + 10 \<le> length buf"
  shows "\<exists>c. convert (struct_type pt) v = Inr c
           \<and> (pt = DoubleProperty \<longrightarrow> c = C_double v)
           \<and> slice buf' (k + length key + 5 + length (name pt) + 10)
                (k + length key + 5 + length (name pt) + 10 + width pt) = serialise c
           \<and> struct_unpack (struct_type pt)
                (slice buf' (k + length key + 5 + length (name pt) + 10)
                   (k + length key + 5 + length (name pt) + 10 + width pt)) = Some c"
proof -
  have k: "bytes_index buf key = Some k"
    using assms(3,4) by (simp add: bytes_index_Some)
  with assms(2) obtain vb where
    vb: "struct_pack (struct_type pt) v = Inr vb" and
    buf': "buf' = set_slice buf (value_offset k key pt) (value_offset k key pt + width pt) vb"
    unfolding update_body_sim_Inr by auto
  from vb obtain c where c: "convert (struct_type pt) v = Inr c" and ser: "vb = serialise c"
    by (auto simp: struct_pack_def split: sum.splits)
  have len: "length vb = width pt"
    using struct_pack_length [OF vb] supported_width [OF assms(1)] by simp
  have dbl: "pt = DoubleProperty \<longrightarrow> c = C_double v"
    using c by (auto simp: DoubleProperty_def convert_def)
  have "value_offset k key pt \<le> length buf"
    using assms(5) by (simp add: value_offset_eq)
  then have win: "slice buf' (value_offset k key pt) (value_offset k key pt + width pt) = vb"
    using slice_set_slice [of "value_offset k key pt" buf _ vb] buf' len by simp
  have "struct_unpack (struct_type pt) vb = Some c"
    using struct_unpack_serialise [OF c] ser by simp
  with win c dbl ser show ?thesis
    unfolding value_offset_eq by auto
qed

text \<open>
  The scenario of the specification: \<open>BaseStrength\<close>, a double holding \<open>1.0\<close>, patched
  to \<open>8.0\<close>.
\<close>

theorem C1_round_trip_witness:
  "supported DoubleProperty
   \<and> update_body_sim complete_blob BaseStrength float_8 DoubleProperty
       = (Inr (), set_slice complete_blob 41 49 (le_bytes 8 float_8))
   \<and> occurs_at complete_blob BaseStrength 0
   \<and> bytes_index complete_blob BaseStrength = Some 0
   \<and> 0 + length BaseStrength + 5 + length (name DoubleProperty) + 10 \<le> length complete_blob
   \<and> (\<exists>c. convert (struct_type DoubleProperty) float_8 = Inr c
           \<and> (DoubleProperty = DoubleProperty \<longrightarrow> c = C_double float_8)
           \<and> slice (set_slice complete_blob 41 49 (le_bytes 8 float_8))
                (0 + length BaseStrength + 5 + length (name DoubleProperty) + 10)
                (0 + length BaseStrength + 5 + length (name DoubleProperty) + 10
                   + width DoubleProperty) = serialise c
           \<and> struct_unpack (struct_type DoubleProperty)
                (slice (set_slice complete_blob 41 49 (le_bytes 8 float_8))
                   (0 + length BaseStrength + 5 + length (name DoubleProperty) + 10)
                   (0 + length BaseStrength + 5 + length (name DoubleProperty) + 10
                      + width DoubleProperty)) = Some c)"
proof -
  have h1: "supported DoubleProperty" by (simp add: supported_def)
  have h2: "update_body_sim complete_blob BaseStrength float_8 DoubleProperty
       = (Inr (), set_slice complete_blob 41 49 (le_bytes 8 float_8))" by code_simp
  have h3: "occurs_at complete_blob BaseStrength 0" by code_simp
  have h4: "\<forall>j<0. \<not> occurs_at complete_blob BaseStrength j" by simp
  have hb: "bytes_index complete_blob BaseStrength = Some 0" by code_simp
  have h5: "0 + length BaseStrength + 5 + length (name DoubleProperty) + 10
      \<le> length complete_blob" by code_simp
  note c = C1_round_trip [OF h1 h2 h3 h4 h5]
  from h1 h2 h3 h4 h5 hb c show ?thesis by (intro conjI)
qed

text \<open>
  C1 as stated fails on a blob that ends right after the type tag: the patch succeeds,
  the eight value bytes are appended at offset 31, and the slice at the value offset
  \<open>0 + 12 + 5 + 14 + 10 = 41\<close> is empty, so nothing can be decoded there.
\<close>

theorem C1_counterexample:
  "supported DoubleProperty
   \<and> update_body_sim truncated_blob BaseStrength float_8 DoubleProperty
       = (Inr (), truncated_blob @ le_bytes 8 float_8)
   \<and> bytes_index truncated_blob BaseStrength = Some 0
   \<and> 0 + length BaseStrength + 5 + length (name DoubleProperty) + 10 = 41
   \<and> slice (truncated_blob @ le_bytes 8 float_8) 41 (41 + width DoubleProperty) = []
   \<and> struct_unpack (struct_type DoubleProperty)
        (slice (truncated_blob @ le_bytes 8 float_8) 41 (41 + width DoubleProperty)) = None"
proof -
  have "supported DoubleProperty" by (simp add: supported_def)
  moreover have "update_body_sim truncated_blob BaseStrength float_8 DoubleProperty
       = (Inr (), truncated_blob @ le_bytes 8 float_8)" by code_simp
  moreover have "bytes_index truncated_blob BaseStrength = Some 0" by code_simp
  moreover have "0 + length BaseStrength + 5 + length (name DoubleProperty) + 10 = 41"
    by code_simp
  moreover have "slice (truncated_blob @ le_bytes 8 float_8) 41 (41 + width DoubleProperty) = []"
    by code_simp
  moreover have "struct_unpack (struct_type DoubleProperty)
        (slice (truncated_blob @ le_bytes 8 float_8) 41 (41 + width DoubleProperty)) = None"
    by code_simp
  ultimately show ?thesis by (intro conjI)
qed

text \<open>
  C2, as amended. A call that fails leaves the buffer as it was, and a call that
  succeeds for a supported type leaves a buffer of length
  \<open>max (length buf) (min vo (length buf) + width pt)\<close>, where \<open>vo\<close> is the value offset:
  the length is unchanged when the value window \<open>[vo, vo + width pt)\<close> lies within the
  buffer. (A window that reaches past the end makes the buffer longer:
  see the counterexample below.)
\<close>

theorem C2_length:
  assumes "supported pt" and "update_body_sim buf key v pt = (r, buf')"
  shows "(\<forall>e. r = Inl e \<longrightarrow> buf' = buf)
       \<and> (\<forall>k. r = Inr () \<and> occurs_at buf key k \<and> (\<forall>j<k. \<not> occurs_at buf key j) \<longrightarrow>
            length buf' =
              max (length buf)
                (min (k + length key + 5 + length (name pt) + 10) (length buf) + width pt)
          \<and> (k + length key + 5 + length (name pt) + 10 + width pt \<le> length buf
               \<longrightarrow> length buf' = length buf))"
proof (intro conjI allI impI)
  fix e assume "r = Inl e"
  then show "buf' = buf" using assms(2) update_body_sim_Inl by simp
next
  fix k
  assume a: "r = Inr () \<and> occurs_at buf key k \<and> (\<forall>j<k. \<not> occurs_at buf key j)"
  then have k: "bytes_index buf key = Some k" by (simp add: bytes_index_Some)
  with a assms(2) obtain vb where
    vb: "struct_pack (struct_type pt) v = Inr vb" and
    buf': "buf' = set_slice buf (value_offset k key pt) (value_offset k key pt + width pt) vb"
    using update_body_sim_Inr [of buf key v pt buf'] by auto
  have len: "length vb = width pt"
    using struct_pack_length [OF vb] supported_width [OF assms(1)] by simp
  have l: "length buf' =
      max (length buf) (min (value_offset k key pt) (length buf) + width pt)"
    using buf' len by (simp add: set_slice_def)
  then show "length buf' =
      max (length buf)
        (min (k + length key + 5 + length (name pt) + 10) (length buf) + width pt)"
    by (simp add: value_offset_eq)
  assume "k + length key + 5 + length (name pt) + 10 + width pt \<le> length buf"
  with l show "length buf' = length buf" by (simp add: value_offset_eq)
qed

text \<open>A call that succeeds within the buffer, and a call that fails.\<close>

theorem C2_length_witness:
  "supported DoubleProperty
   \<and> update_body_sim complete_blob BaseStrength float_8 DoubleProperty
       = (Inr (), set_slice complete_blob 41 49 (le_bytes 8 float_8))
   \<and> occurs_at complete_blob BaseStrength 0
   \<and> bytes_index complete_blob BaseStrength = Some 0
   \<and> 0 + length BaseStrength + 5 + length (name DoubleProperty) + 10 + width DoubleProperty
        \<le> length complete_blob
   \<and> length (set_slice complete_blob 41 49 (le_bytes 8 float_8)) = length complete_blob
   \<and> supported FloatProperty
   \<and> update_body_sim complete_blob BaseStrength float_8 FloatProperty
       = (Inl AssertionError, complete_blob)"
proof -
  have h1: "supported DoubleProperty" by (simp add: supported_def)
  have h2: "update_body_sim complete_blob BaseStrength float_8 DoubleProperty
       = (Inr (), set_slice complete_blob 41 49 (le_bytes 8 float_8))" by code_simp
  have h3: "occurs_at complete_blob BaseStrength 0" by code_simp
  have h4: "\<forall>j<0. \<not> occurs_at complete_blob BaseStrength j" by simp
  have hb: "bytes_index complete_blob BaseStrength = Some 0" by code_simp
  have h5: "0 + length BaseStrength + 5 + length (name DoubleProperty) + 10
      + width DoubleProperty \<le> length complete_blob" by code_simp
  have c: "length (set_slice complete_blob 41 49 (le_bytes 8 float_8)) = length complete_blob"
    using C2_length [OF h1 h2] h3 h4 h5 by blast
  have g1: "supported FloatProperty" by (simp add: supported_def)
  obtain r b where g2: "update_body_sim complete_blob BaseStrength float_8 FloatProperty = (r, b)"
    by (cases "update_body_sim complete_blob BaseStrength float_8 FloatProperty")
  have "fst (update_body_sim complete_blob BaseStrength float_8 FloatProperty)
      = Inl AssertionError" by code_simp
  with g2 have "r = Inl AssertionError" by simp
  with C2_length [OF g1 g2] have "b = complete_blob" by blast
  with g2 \<open>r = Inl AssertionError\<close>
  have d: "update_body_sim complete_blob BaseStrength float_8 FloatProperty
      = (Inl AssertionError, complete_blob)" by simp
  from h1 h2 h3 h4 h5 hb c g1 d show ?thesis by (intro conjI)
qed

text \<open>
  C2 as stated fails on the blob that ends right after the type tag: the call succeeds
  and the buffer grows from 31 to 39 bytes.
\<close>

theorem C2_counterexample:
  "fst (update_body_sim truncated_blob BaseStrength float_8 DoubleProperty) = Inr ()
   \<and> length truncated_blob = 31
   \<and> length (snd (update_body_sim truncated_blob BaseStrength float_8 DoubleProperty)) = 39"
proof -
  have "fst (update_body_sim truncated_blob BaseStrength float_8 DoubleProperty) = Inr ()"
    by code_simp
  moreover have "length truncated_blob = 31" by code_simp
  moreover have
    "length (snd (update_body_sim truncated_blob BaseStrength float_8 DoubleProperty)) = 39"
    by code_simp
  ultimately show ?thesis by (intro conjI)
qed

text \<open>
  C3, as amended. After a patch that succeeds for a supported type, every byte of the
  pre-patch buffer outside the value window is still there, at its index; and when
  the value offset is not past the end of the pre-patch buffer, every byte of the
  patched buffer outside the window is the byte that the pre-patch buffer had at that
  index. (When the value offset is past the end, the appended value bytes lie before
  the window, at indices where the pre-patch buffer had no byte, as the counterexample
  below shows.)
\<close>

theorem C3_frame:
  assumes "supported pt" and "update_body_sim buf key v pt = (Inr (), buf')"
    and "occurs_at buf key k" and "\<forall>j<k. \<not> occurs_at buf key j"
  shows "(\<forall>i<length buf.
            i < k + length key + 5 + length (name pt) + 10
              \<or> k + length key + 5 + length (name pt) + 10 + width pt \<le> i
            \<longrightarrow> i < length buf' \<and> buf' ! i = buf ! i)
       \<and> (k + length key + 5 + length (name pt) + 10 \<le> length buf \<longrightarrow>
            (\<forall>i<length buf'.
               i < k + length key + 5 + length (name pt) + 10
                 \<or> k + length key + 5 + length (name pt) + 10 + width pt \<le> i
               \<longrightarrow> i < length buf \<and> buf' ! i = buf ! i))"
proof -
  have k: "bytes_index buf key = Some k"
    using assms(3,4) by (simp add: bytes_index_Some)
  with assms(2) obtain vb where
    vb: "struct_pack (struct_type pt) v = Inr vb" and
    buf': "buf' = set_slice buf (value_offset k key pt) (value_offset k key pt + width pt) vb"
    unfolding update_body_sim_Inr by auto
  define vo where "vo = value_offset k key pt"
  have len: "length vb = width pt"
    using struct_pack_length [OF vb] supported_width [OF assms(1)] by simp
  have b: "buf' = take vo buf @ vb @ drop (vo + width pt) buf"
    using buf' by (simp add: set_slice_def vo_def)
  have before: "i < length buf' \<and> buf' ! i = buf ! i" if "i < length buf" "i < vo" for i
    using that by (simp add: b nth_append)
  have after: "i < length buf' \<and> buf' ! i = buf ! i"
    if "i < length buf" "vo + width pt \<le> i" for i
  proof -
    from that have le: "vo \<le> length buf" by simp
    have b2: "buf' = (take vo buf @ vb) @ drop (vo + width pt) buf"
      by (simp add: b)
    have l2: "length (take vo buf @ vb) = vo + width pt"
      using le len by simp
    have "buf' ! i = drop (vo + width pt) buf ! (i - (vo + width pt))"
      unfolding b2 using that(2) l2 by (simp only: nth_append) simp
    moreover have "length buf' = length buf"
      using le len that by (simp add: b)
    ultimately show ?thesis using that by simp
  qed
  have within: "i < length buf"
    if "vo \<le> length buf" "i < length buf'" "i < vo \<or> vo + width pt \<le> i" for i
  proof -
    have "length buf' = vo + width pt + (length buf - (vo + width pt))"
      using that(1) len by (simp add: b)
    with that show ?thesis by arith
  qed
  have "(\<forall>i<length buf. i < vo \<or> vo + width pt \<le> i \<longrightarrow> i < length buf' \<and> buf' ! i = buf ! i)
      \<and> (vo \<le> length buf \<longrightarrow>
           (\<forall>i<length buf'. i < vo \<or> vo + width pt \<le> i \<longrightarrow> i < length buf \<and> buf' ! i = buf ! i))"
    using before after within by blast
  then show ?thesis
    unfolding vo_def value_offset_eq by blast
qed

text \<open>The type tag of the complete blob, at index 17, is outside the window and stays.\<close>

theorem C3_frame_witness:
  "supported DoubleProperty
   \<and> update_body_sim complete_blob BaseStrength float_8 DoubleProperty
       = (Inr (), set_slice complete_blob 41 49 (le_bytes 8 float_8))
   \<and> occurs_at complete_blob BaseStrength 0
   \<and> bytes_index complete_blob BaseStrength = Some 0
   \<and> 0 + length BaseStrength + 5 + length (name DoubleProperty) + 10 \<le> length complete_blob
   \<and> 17 < length (set_slice complete_blob 41 49 (le_bytes 8 float_8))
   \<and> 17 < 0 + length BaseStrength + 5 + length (name DoubleProperty) + 10
   \<and> 17 < length complete_blob
   \<and> set_slice complete_blob 41 49 (le_bytes 8 float_8) ! 17 = complete_blob ! 17"
proof -
  have h1: "supported DoubleProperty" by (simp add: supported_def)
  have h2: "update_body_sim complete_blob BaseStrength float_8 DoubleProperty
       = (Inr (), set_slice complete_blob 41 49 (le_bytes 8 float_8))" by code_simp
  have h3: "occurs_at complete_blob BaseStrength 0" by code_simp
  have h4: "\<forall>j<0. \<not> occurs_at complete_blob BaseStrength j" by simp
  have hb: "bytes_index complete_blob BaseStrength = Some 0" by code_simp
  have h5: "0 + length BaseStrength + 5 + length (name DoubleProperty) + 10
      \<le> length complete_blob" by code_simp
  have h6: "17 < length (set_slice complete_blob 41 49 (le_bytes 8 float_8))" by code_simp
  have h7: "17 < 0 + length BaseStrength + 5 + length (name DoubleProperty) + 10" by code_simp
  have c: "17 < length complete_blob
      \<and> set_slice complete_blob 41 49 (le_bytes 8 float_8) ! 17 = complete_blob ! 17"
    using C3_frame [OF h1 h2 h3 h4] h5 h6 h7 by blast
  from h1 h2 h3 h4 h5 hb h6 h7 c show ?thesis by (intro conjI) simp_all
qed

text \<open>
  C3 as stated fails on the blob that ends right after the type tag: the patched
  buffer has a byte at index 31, before the window that starts at 41, and the pre-patch
  buffer has no byte there.
\<close>

theorem C3_counterexample:
  "update_body_sim truncated_blob BaseStrength float_8 DoubleProperty
       = (Inr (), truncated_blob @ le_bytes 8 float_8)
   \<and> bytes_index truncated_blob BaseStrength = Some 0
   \<and> 0 + length BaseStrength + 5 + length (name DoubleProperty) + 10 = 41
   \<and> 31 < length (truncated_blob @ le_bytes 8 float_8)
   \<and> \<not> 31 < length truncated_blob"
proof -
  have "update_body_sim truncated_blob BaseStrength float_8 DoubleProperty
       = (Inr (), truncated_blob @ le_bytes 8 float_8)" by code_simp
  moreover have "bytes_index truncated_blob BaseStrength = Some 0" by code_simp
  moreover have "0 + length BaseStrength + 5 + length (name DoubleProperty) + 10 = 41"
    by code_simp
  moreover have "31 < length (truncated_blob @ le_bytes 8 float_8)" by code_simp
  moreover have "\<not> 31 < length truncated_blob" by code_simp
  ultimately show ?thesis by (intro conjI)
qed

text \<open>
  C4. When the key occurs in the buffer and the bytes at the type-tag position of its
  first occurrence \<open>k\<close>, from \<open>k + length key + 5\<close> for the length of the type's name,
  are not the name of the requested type, the call fails on the \<open>assert\<close> (the
  type-mismatch error of the specification is Python's \<open>AssertionError\<close>) and leaves
  the buffer as it was.
\<close>

theorem C4_type_mismatch:
  assumes "occurs_at buf key k" and "\<forall>j<k. \<not> occurs_at buf key j"
    and "slice buf (k + length key + 5) (k + length key + 5 + length (name pt)) \<noteq> name pt"
  shows "update_body_sim buf key v pt = (Inl AssertionError, buf)"
proof -
  have "bytes_index buf key = Some k"
    using assms(1,2) by (simp add: bytes_index_Some)
  then show ?thesis
    using assms(3) by (simp add: update_body_sim_def tag_offset_eq)
qed

text \<open>A double field patched as a float.\<close>

theorem C4_type_mismatch_witness:
  "occurs_at complete_blob BaseStrength 0
   \<and> bytes_index complete_blob BaseStrength = Some 0
   \<and> slice complete_blob (0 + length BaseStrength + 5)
        (0 + length BaseStrength + 5 + length (name FloatProperty)) \<noteq> name FloatProperty
   \<and> update_body_sim complete_blob BaseStrength float_8 FloatProperty
        = (Inl AssertionError, complete_blob)"
proof -
  have h1: "occurs_at complete_blob BaseStrength 0" by code_simp
  have h2: "\<forall>j<0. \<not> occurs_at complete_blob BaseStrength j" by simp
  have hb: "bytes_index complete_blob BaseStrength = Some 0" by code_simp
  have h3: "slice complete_blob (0 + length BaseStrength + 5)
        (0 + length BaseStrength + 5 + length (name FloatProperty)) \<noteq> name FloatProperty"
    by code_simp
  note c = C4_type_mismatch [OF h1 h2 h3, of float_8]
  from h1 h2 hb h3 c show ?thesis by (intro conjI)
qed

text \<open>
  C5. When the bytes of the key occur at no offset of the buffer, the call fails on the
  search (the field-not-found error of the specification is the \<open>ValueError\<close> of
  \<open>bytearray.index\<close>) and leaves the buffer as it was.
\<close>

theorem C5_key_absent:
  assumes "\<forall>i. \<not> occurs_at buf key i"
  shows "update_body_sim buf key v pt = (Inl ValueError, buf)"
proof -
  have "bytes_index buf key = None"
    using assms by (simp add: bytes_index_None)
  then show ?thesis by (simp add: update_body_sim_def)
qed

text \<open>The blob has no field \<open>BaseDexterity\<close>.\<close>

theorem C5_key_absent_witness:
  "(\<forall>i. \<not> occurs_at complete_blob (ascii ''BaseDexterity'') i)
   \<and> update_body_sim complete_blob (ascii ''BaseDexterity'') float_8 DoubleProperty
        = (Inl ValueError, complete_blob)"
proof -
  have "bytes_index complete_blob (ascii ''BaseDexterity'') = None" by code_simp
  then have h: "\<forall>i. \<not> occurs_at complete_blob (ascii ''BaseDexterity'') i"
    by (rule bytes_index_None [THEN iffD1])
  note c = C5_key_absent [OF h, of float_8 DoubleProperty]
  show ?thesis by (rule conjI [OF h c])
qed

text \<open>
  C9, as amended. When a patch succeeds for a supported type and the value offset,
  counted from the first occurrence \<open>k\<close> of the key, is not past the end of the buffer,
  the same patch on the patched buffer succeeds and changes nothing. (When the value
  offset is past the end, each call appends the value bytes once more, as the
  counterexample below shows.)
\<close>

theorem C9_idempotent:
  assumes "supported pt" and "update_body_sim buf key v pt = (Inr (), buf')"
    and "occurs_at buf key k" and "\<forall>j<k. \<not> occurs_at buf key j"
    and "k + length key + 5 + length (name pt) + 10 \<le> length buf"
  shows "update_body_sim buf' key v pt = (Inr (), buf')"
proof -
  have k: "bytes_index buf key = Some k"
    using assms(3,4) by (simp add: bytes_index_Some)
  with assms(2) obtain vb where
    tag: "slice buf (tag_offset k key) (tag_offset k key + length (name pt)) = name pt" and
    vb: "struct_pack (struct_type pt) v = Inr vb" and
    buf': "buf' = set_slice buf (value_offset k key pt) (value_offset k key pt + width pt) vb"
    unfolding update_body_sim_Inr by auto
  define vo where "vo = value_offset k key pt"
  have vo: "vo = k + length key + 5 + length (name pt) + 10"
    by (simp add: vo_def value_offset_eq)
  have len: "length vb = width pt"
    using struct_pack_length [OF vb] supported_width [OF assms(1)] by simp
  have b: "buf' = take vo buf @ vb @ drop (vo + width pt) buf"
    using buf' by (simp add: set_slice_def vo_def)
  have le: "vo \<le> length buf" using assms(5) vo by simp
  have le': "vo \<le> length buf'" using le by (simp add: b)
  have pre: "take vo buf' = take vo buf" using le by (simp add: b)
  have occ: "occurs_at buf' key j \<longleftrightarrow> occurs_at buf key j" if "j \<le> k" for j
    using occurs_at_prefix [OF pre le' le, of j key] that vo by simp
  have k': "bytes_index buf' key = Some k"
    unfolding bytes_index_Some using occ assms(3,4) by simp
  have tag': "slice buf' (tag_offset k key) (tag_offset k key + length (name pt)) = name pt"
    using slice_prefix [OF pre, of "tag_offset k key + length (name pt)" "tag_offset k key"] tag vo
    by (simp add: tag_offset_eq)
  have "set_slice buf' vo (vo + width pt) vb = buf'"
    using le len by (simp add: set_slice_def b)
  then show ?thesis
    unfolding update_body_sim_Inr using k' tag' vb vo_def by auto
qed

text \<open>The complete blob, patched to \<open>8.0\<close> twice.\<close>

theorem C9_idempotent_witness:
  "supported DoubleProperty
   \<and> update_body_sim complete_blob BaseStrength float_8 DoubleProperty
       = (Inr (), set_slice complete_blob 41 49 (le_bytes 8 float_8))
   \<and> occurs_at complete_blob BaseStrength 0
   \<and> bytes_index complete_blob BaseStrength = Some 0
   \<and> 0 + length BaseStrength + 5 + length (name DoubleProperty) + 10 \<le> length complete_blob
   \<and> update_body_sim (set_slice complete_blob 41 49 (le_bytes 8 float_8)) BaseStrength
        float_8 DoubleProperty
       = (Inr (), set_slice complete_blob 41 49 (le_bytes 8 float_8))"
proof -
  have h1: "supported DoubleProperty" by (simp add: supported_def)
  have h2: "update_body_sim complete_blob BaseStrength float_8 DoubleProperty
       = (Inr (), set_slice complete_blob 41 49 (le_bytes 8 float_8))" by code_simp
  have h3: "occurs_at complete_blob BaseStrength 0" by code_simp
  have h4: "\<forall>j<0. \<not> occurs_at complete_blob BaseStrength j" by simp
  have hb: "bytes_index complete_blob BaseStrength = Some 0" by code_simp
  have h5: "0 + length BaseStrength + 5 + length (name DoubleProperty) + 10
      \<le> length complete_blob" by code_simp
  note c = C9_idempotent [OF h1 h2 h3 h4 h5]
  from h1 h2 h3 h4 h5 hb c show ?thesis by (intro conjI)
qed

text \<open>
  C9 as stated fails on the blob that ends right after the type tag: the first call
  appends the eight value bytes, the second call appends them again.
\<close>

theorem C9_counterexample:
  "update_body_sim truncated_blob BaseStrength float_8 DoubleProperty
       = (Inr (), truncated_blob @ le_bytes 8 float_8)
   \<and> update_body_sim (truncated_blob @ le_bytes 8 float_8) BaseStrength float_8 DoubleProperty
       = (Inr (), truncated_blob @ le_bytes 8 float_8 @ le_bytes 8 float_8)
   \<and> truncated_blob @ le_bytes 8 float_8 @ le_bytes 8 float_8
       \<noteq> truncated_blob @ le_bytes 8 float_8"
proof -
  have "update_body_sim truncated_blob BaseStrength float_8 DoubleProperty
       = (Inr (), truncated_blob @ le_bytes 8 float_8)" by code_simp
  moreover have
    "update_body_sim (truncated_blob @ le_bytes 8 float_8) BaseStrength float_8 DoubleProperty
       = (Inr (), truncated_blob @ le_bytes 8 float_8 @ le_bytes 8 float_8)" by code_simp
  moreover have "truncated_blob @ le_bytes 8 float_8 @ le_bytes 8 float_8
       \<noteq> truncated_blob @ le_bytes 8 float_8" by code_simp
  ultimately show ?thesis by (intro conjI)
qed

text \<open>
  C10, as amended. When the key occurs, the type tag at its first occurrence \<open>k\<close>
  matches a supported type and the value window reaches past the end of the buffer,
  and the value can be packed (a double and a boolean always can, a float unless
  \<open>struct.pack\<close> raises \<open>OverflowError\<close>), the call succeeds: the buffer becomes its
  bytes before the value offset followed by the value bytes, its length is
  \<open>min vo (length buf) + width pt\<close>, and that is more than it was. (A value too large
  for a float makes the call fail, as the counterexample below shows.)
\<close>

theorem C10_grows:
  assumes "supported pt"
    and "occurs_at buf key k" and "\<forall>j<k. \<not> occurs_at buf key j"
    and "slice buf (k + length key + 5) (k + length key + 5 + length (name pt)) = name pt"
    and "k + length key + 5 + length (name pt) + 10 + width pt > length buf"
    and "pt = FloatProperty \<longrightarrow> double_to_single v \<noteq> Inl OverflowError"
  shows "\<exists>vb. struct_pack (struct_type pt) v = Inr vb
           \<and> update_body_sim buf key v pt =
               (Inr (), take (k + length key + 5 + length (name pt) + 10) buf @ vb)
           \<and> length (take (k + length key + 5 + length (name pt) + 10) buf @ vb) =
               min (k + length key + 5 + length (name pt) + 10) (length buf) + width pt
           \<and> length buf < min (k + length key + 5 + length (name pt) + 10) (length buf) + width pt"
proof -
  have k: "bytes_index buf key = Some k"
    using assms(2,3) by (simp add: bytes_index_Some)
  have "struct_type pt = Fmt_f \<longrightarrow> pt = FloatProperty"
    using assms(1)
    by (auto simp: supported_def DoubleProperty_def FloatProperty_def BoolProperty_def)
  with assms(6) obtain vb where vb: "struct_pack (struct_type pt) v = Inr vb"
    using struct_pack_Inr [of "struct_type pt" v] by blast
  have len: "length vb = width pt"
    using struct_pack_length [OF vb] supported_width [OF assms(1)] by simp
  have "update_body_sim buf key v pt =
      (Inr (), take (k + length key + 5 + length (name pt) + 10) buf @ vb)"
    using k assms(4,5) vb
    by (simp add: update_body_sim_def tag_offset_eq value_offset_eq set_slice_def)
  moreover have "0 < width pt"
    using assms(1)
    by (auto simp: supported_def DoubleProperty_def FloatProperty_def BoolProperty_def)
  ultimately show ?thesis using vb len assms(5) by (auto simp: min_def)
qed

text \<open>
  The blob that ends right after the tag of a float, patched to \<open>8.0\<close>: four bytes are
  appended.
\<close>

theorem C10_grows_witness:
  "supported FloatProperty
   \<and> occurs_at truncated_float_blob BaseStrength 0
   \<and> bytes_index truncated_float_blob BaseStrength = Some 0
   \<and> slice truncated_float_blob (0 + length BaseStrength + 5)
        (0 + length BaseStrength + 5 + length (name FloatProperty)) = name FloatProperty
   \<and> 0 + length BaseStrength + 5 + length (name FloatProperty) + 10 + width FloatProperty
        > length truncated_float_blob
   \<and> double_to_single float_8 \<noteq> Inl OverflowError
   \<and> (\<exists>vb. struct_pack (struct_type FloatProperty) float_8 = Inr vb
           \<and> update_body_sim truncated_float_blob BaseStrength float_8 FloatProperty =
               (Inr (), take (0 + length BaseStrength + 5 + length (name FloatProperty) + 10)
                          truncated_float_blob @ vb)
           \<and> length (take (0 + length BaseStrength + 5 + length (name FloatProperty) + 10)
                        truncated_float_blob @ vb) =
               min (0 + length BaseStrength + 5 + length (name FloatProperty) + 10)
                 (length truncated_float_blob) + width FloatProperty
           \<and> length truncated_float_blob
               < min (0 + length BaseStrength + 5 + length (name FloatProperty) + 10)
                   (length truncated_float_blob) + width FloatProperty)"
proof -
  have h1: "supported FloatProperty" by (simp add: supported_def)
  have h2: "occurs_at truncated_float_blob BaseStrength 0" by code_simp
  have h3: "\<forall>j<0. \<not> occurs_at truncated_float_blob BaseStrength j" by simp
  have hb: "bytes_index truncated_float_blob BaseStrength = Some 0" by code_simp
  have h4: "slice truncated_float_blob (0 + length BaseStrength + 5)
        (0 + length BaseStrength + 5 + length (name FloatProperty)) = name FloatProperty"
    by code_simp
  have h5: "0 + length BaseStrength + 5 + length (name FloatProperty) + 10
      + width FloatProperty > length truncated_float_blob" by code_simp
  have h6': "double_to_single float_8 \<noteq> Inl OverflowError" by code_simp
  then have h6: "FloatProperty = FloatProperty \<longrightarrow> double_to_single float_8 \<noteq> Inl OverflowError"
    by (rule impI)
  note c = C10_grows [OF h1 h2 h3 h4 h5 h6]
  from h1 h2 hb h4 h5 h6' c show ?thesis by (intro conjI)
qed

text \<open>
  C10 as stated fails for a float field and the value \<open>2.0 ** 128\<close>: the key occurs,
  the tag matches and the window reaches past the end, yet the call fails with
  \<open>OverflowError\<close> and the buffer does not grow.
\<close>

theorem C10_counterexample:
  "supported FloatProperty
   \<and> bytes_index truncated_float_blob BaseStrength = Some 0
   \<and> slice truncated_float_blob (0 + length BaseStrength + 5)
        (0 + length BaseStrength + 5 + length (name FloatProperty)) = name FloatProperty
   \<and> 0 + length BaseStrength + 5 + length (name FloatProperty) + 10 + width FloatProperty
        > length truncated_float_blob
   \<and> update_body_sim truncated_float_blob BaseStrength float_2_pow_128 FloatProperty
        = (Inl OverflowError, truncated_float_blob)"
proof -
  have "supported FloatProperty" by (simp add: supported_def)
  moreover have "bytes_index truncated_float_blob BaseStrength = Some 0" by code_simp
  moreover have "slice truncated_float_blob (0 + length BaseStrength + 5)
        (0 + length BaseStrength + 5 + length (name FloatProperty)) = name FloatProperty"
    by code_simp
  moreover have "0 + length BaseStrength + 5 + length (name FloatProperty) + 10
      + width FloatProperty > length truncated_float_blob" by code_simp
  moreover have
    "update_body_sim truncated_float_blob BaseStrength float_2_pow_128 FloatProperty
        = (Inl OverflowError, truncated_float_blob)" by code_simp
  ultimately show ?thesis by (intro conjI)
qed

section \<open>Claims about the database\<close>

text \<open>
  The theorems below are about databases of the schema described above
  (\<open>wf_prisoner\<close>, \<open>wf_prisoner_skill\<close>) and records whose id is an integer.
\<close>

text \<open>
  C6, as amended. For a prisoner whose id is a 64-bit integer and a dictionary of
  overrides whose levels and experiences are 64-bit integers, \<open>update_skills\<close>
  returns normally and changes nothing but the skill table, which keeps its rows, in
  their order, each with its owner and name: a row of the prisoner whose name is a key
  of the dictionary holds the level and the experience configured for that name, and a
  row of another prisoner, or with a name that is no key, is as it was. No row is
  created or deleted, whatever names the dictionary holds. (A level or an experience
  outside 64 bits makes the \<open>UPDATE\<close> fail with \<open>OverflowError\<close>, as the counterexample
  below shows.)
\<close>

theorem C6_update_skills:
  assumes "prisoner_dict ''id'' = Some (Integer i)" and "fits_int64 i"
    and "wf_prisoner_skill (prisoner_skill con)"
    and "\<forall>s l e. set_skills s = Some (l, e) \<longrightarrow> fits_int64 l \<and> fits_int64 e"
  shows "\<exists>tbl'. update_skills set_skills con prisoner_dict
                 = (Inr (), con\<lparr>prisoner_skill := tbl'\<rparr>)
     \<and> length tbl' = length (prisoner_skill con)
     \<and> (\<forall>k<length (prisoner_skill con).
          skill_prisoner_id (tbl' ! k) = skill_prisoner_id (prisoner_skill con ! k)
        \<and> skill_name (tbl' ! k) = skill_name (prisoner_skill con ! k)
        \<and> (\<forall>s l e. skill_prisoner_id (prisoner_skill con ! k) = Integer i
              \<longrightarrow> skill_name (prisoner_skill con ! k) = Text s
              \<longrightarrow> set_skills s = Some (l, e)
              \<longrightarrow> skill_level (tbl' ! k) = Integer l
                  \<and> skill_experience (tbl' ! k) = Integer e)
        \<and> (skill_prisoner_id (prisoner_skill con ! k) \<noteq> Integer i
             \<or> (\<forall>s. skill_name (prisoner_skill con ! k) = Text s \<longrightarrow> set_skills s = None)
           \<longrightarrow> tbl' ! k = prisoner_skill con ! k))"
proof -
  let ?tbl' = "map (override_row set_skills (Integer i) UNIV) (prisoner_skill con)"
  have b: "bindable (Integer i)"
    using assms(2) by (simp add: bindable_def)
  have "update_skills set_skills con prisoner_dict = (Inr (), con\<lparr>prisoner_skill := ?tbl'\<rparr>)"
    using assms(1) b assms(4) by (rule update_skills_map)
  moreover have "length ?tbl' = length (prisoner_skill con)" by simp
  moreover have "\<forall>k<length (prisoner_skill con).
          skill_prisoner_id (?tbl' ! k) = skill_prisoner_id (prisoner_skill con ! k)
        \<and> skill_name (?tbl' ! k) = skill_name (prisoner_skill con ! k)
        \<and> (\<forall>s l e. skill_prisoner_id (prisoner_skill con ! k) = Integer i
              \<longrightarrow> skill_name (prisoner_skill con ! k) = Text s
              \<longrightarrow> set_skills s = Some (l, e)
              \<longrightarrow> skill_level (?tbl' ! k) = Integer l
                  \<and> skill_experience (?tbl' ! k) = Integer e)
        \<and> (skill_prisoner_id (prisoner_skill con ! k) \<noteq> Integer i
             \<or> (\<forall>s. skill_name (prisoner_skill con ! k) = Text s \<longrightarrow> set_skills s = None)
           \<longrightarrow> ?tbl' ! k = prisoner_skill con ! k)"
    by (auto simp: override_row_def sql_eq_def split: sqlval.splits option.splits)
  ultimately show ?thesis by blast
qed

text \<open>
  The example of the specification: the rows \<open>A: (0, 0)\<close> and \<open>B: (1, 100)\<close> with the
  override \<open>A: (3, 10000000)\<close>.
\<close>

theorem C6_update_skills_witness:
  "sample_prisoner ''id'' = Some (Integer 1)
   \<and> fits_int64 1
   \<and> wf_prisoner_skill (prisoner_skill sample_db)
   \<and> sample_overrides ''A'' = Some (3, 10000000)
   \<and> fits_int64 3 \<and> fits_int64 10000000
   \<and> (\<exists>tbl'. update_skills sample_overrides sample_db sample_prisoner
               = (Inr (), sample_db\<lparr>prisoner_skill := tbl'\<rparr>)
        \<and> length tbl' = 2
        \<and> skill_name (tbl' ! 0) = Text ''A''
        \<and> skill_level (tbl' ! 0) = Integer 3
        \<and> skill_experience (tbl' ! 0) = Integer 10000000
        \<and> tbl' ! 1 = prisoner_skill sample_db ! 1)"
proof -
  have h1: "sample_prisoner ''id'' = Some (Integer 1)"
    by (simp add: sample_prisoner_def)
  have h2: "fits_int64 1"
    by (simp add: fits_int64_def)
  have h3: "wf_prisoner_skill (prisoner_skill sample_db)"
    by (simp add: wf_prisoner_skill_def sample_db_def integer_id_def fits_int64_def)
  have f: "fits_int64 3" "fits_int64 10000000"
    by (simp_all add: fits_int64_def)
  then have h4: "\<forall>s l e. sample_overrides s = Some (l, e) \<longrightarrow> fits_int64 l \<and> fits_int64 e"
    by (auto simp: sample_overrides_def split: if_splits)
  have n: "length (prisoner_skill sample_db) = 2"
    by (simp add: sample_db_def)
  have a0: "skill_prisoner_id (prisoner_skill sample_db ! 0) = Integer 1"
    by (simp add: sample_db_def)
  have a1: "skill_name (prisoner_skill sample_db ! 0) = Text ''A''"
    by (simp add: sample_db_def)
  have a2: "sample_overrides ''A'' = Some (3, 10000000)"
    by (simp add: sample_overrides_def)
  have b1: "\<forall>s. skill_name (prisoner_skill sample_db ! 1) = Text s \<longrightarrow> sample_overrides s = None"
    by (simp add: sample_db_def sample_overrides_def)
  from C6_update_skills [where prisoner_dict = sample_prisoner and i = 1
      and set_skills = sample_overrides and con = sample_db, OF h1 h2 h3 h4] obtain tbl' where
    u: "update_skills sample_overrides sample_db sample_prisoner
          = (Inr (), sample_db\<lparr>prisoner_skill := tbl'\<rparr>)" and
    l: "length tbl' = length (prisoner_skill sample_db)" and
    r: "\<And>k. k < length (prisoner_skill sample_db) \<Longrightarrow>
          skill_prisoner_id (tbl' ! k) = skill_prisoner_id (prisoner_skill sample_db ! k)
        \<and> skill_name (tbl' ! k) = skill_name (prisoner_skill sample_db ! k)
        \<and> (\<forall>s l e. skill_prisoner_id (prisoner_skill sample_db ! k) = Integer 1
              \<longrightarrow> skill_name (prisoner_skill sample_db ! k) = Text s
              \<longrightarrow> sample_overrides s = Some (l, e)
              \<longrightarrow> skill_level (tbl' ! k) = Integer l
                  \<and> skill_experience (tbl' ! k) = Integer e)
        \<and> (skill_prisoner_id (prisoner_skill sample_db ! k) \<noteq> Integer 1
             \<or> (\<forall>s. skill_name (prisoner_skill sample_db ! k) = Text s
                    \<longrightarrow> sample_overrides s = None)
           \<longrightarrow> tbl' ! k = prisoner_skill sample_db ! k)"
    by blast
  have "0 < length (prisoner_skill sample_db)" using n by simp
  from r [OF this] a0 a1 a2 have r0:
    "skill_name (tbl' ! 0) = Text ''A'' \<and> skill_level (tbl' ! 0) = Integer 3
      \<and> skill_experience (tbl' ! 0) = Integer 10000000"
    by metis
  have "1 < length (prisoner_skill sample_db)" using n by simp
  from r [OF this] b1 have r1: "tbl' ! 1 = prisoner_skill sample_db ! 1"
    by blast
  from u l n r0 r1 have "update_skills sample_overrides sample_db sample_prisoner
               = (Inr (), sample_db\<lparr>prisoner_skill := tbl'\<rparr>)
        \<and> length tbl' = 2
        \<and> skill_name (tbl' ! 0) = Text ''A''
        \<and> skill_level (tbl' ! 0) = Integer 3
        \<and> skill_experience (tbl' ! 0) = Integer 10000000
        \<and> tbl' ! 1 = prisoner_skill sample_db ! 1"
    by simp
  then have "\<exists>tbl'. update_skills sample_overrides sample_db sample_prisoner
               = (Inr (), sample_db\<lparr>prisoner_skill := tbl'\<rparr>)
        \<and> length tbl' = 2
        \<and> skill_name (tbl' ! 0) = Text ''A''
        \<and> skill_level (tbl' ! 0) = Integer 3
        \<and> skill_experience (tbl' ! 0) = Integer 10000000
        \<and> tbl' ! 1 = prisoner_skill sample_db ! 1"
    by (rule exI)
  with h1 h2 h3 a2 f show ?thesis by (intro conjI)
qed

text \<open>
  C6 as stated fails for the override \<open>A: (3, 2 ** 63)\<close>: the row \<open>A\<close> belongs to the
  prisoner and its name is in the mapping, yet the call fails with \<open>OverflowError\<close>
  when the experience is bound, and the row keeps its level 0 and experience 0.
\<close>

theorem C6_counterexample:
  "sample_prisoner ''id'' = Some (Integer 1)
   \<and> skill_prisoner_id (prisoner_skill sample_db ! 0) = Integer 1
   \<and> skill_name (prisoner_skill sample_db ! 0) = Text ''A''
   \<and> large_overrides ''A'' = Some (3, 9223372036854775808)
   \<and> update_skills large_overrides sample_db sample_prisoner = (Inl OverflowError, sample_db)
   \<and> skill_experience (prisoner_skill sample_db ! 0) = Integer 0"
proof -
  have "sample_prisoner ''id'' = Some (Integer 1)"
    by (simp add: sample_prisoner_def)
  moreover have "skill_prisoner_id (prisoner_skill sample_db ! 0) = Integer 1"
    by (simp add: sample_db_def)
  moreover have "skill_name (prisoner_skill sample_db ! 0) = Text ''A''"
    by (simp add: sample_db_def)
  moreover have "large_overrides ''A'' = Some (3, 9223372036854775808)"
    by (simp add: large_overrides_def)
  moreover have
    "update_skills large_overrides sample_db sample_prisoner = (Inl OverflowError, sample_db)"
    by (simp add: update_skills_def update_skill_def large_overrides_def sample_prisoner_def
        sample_db_def bindable_def fits_int64_def sql_eq_def)
  moreover have "skill_experience (prisoner_skill sample_db ! 0) = Integer 0"
    by (simp add: sample_db_def)
  ultimately show ?thesis by (intro conjI)
qed

text \<open>
  C7, as amended. For a record that holds a blob and a 64-bit integer id,
  \<open>save_prisoner\<close> returns normally, whatever the number of rows it affects: it returns
  the cursor of the \<open>UPDATE\<close>, whose \<open>rowcount\<close> is the number of rows with that id.
  The skill table, the columns and the number of rows are unchanged, a row with
  another id is unchanged, and a row with that id keeps every column but
  \<open>body_simulation\<close>, which holds the blob of the record. (No error is raised when no
  row is affected, as the counterexample below shows.)
\<close>

theorem C7_save_prisoner:
  assumes "prisoner_dict ''body_simulation'' = Some (Blob bs)"
    and "prisoner_dict ''id'' = Some (Integer i)" and "fits_int64 i"
    and "wf_prisoner (prisoner con)"
    and "''body_simulation'' \<in> set (columns (prisoner con))"
  shows "\<exists>cur con'. save_prisoner con prisoner_dict = Inr (cur, con')
     \<and> rowcount cur =
         int (length (filter (\<lambda>r. cell (columns (prisoner con)) r ''id'' = Some (Integer i))
                (rows (prisoner con))))
     \<and> prisoner_skill con' = prisoner_skill con
     \<and> columns (prisoner con') = columns (prisoner con)
     \<and> length (rows (prisoner con')) = length (rows (prisoner con))
     \<and> (\<forall>k<length (rows (prisoner con)).
          (cell (columns (prisoner con)) (rows (prisoner con) ! k) ''id'' \<noteq> Some (Integer i)
             \<longrightarrow> rows (prisoner con') ! k = rows (prisoner con) ! k)
        \<and> (cell (columns (prisoner con)) (rows (prisoner con) ! k) ''id'' = Some (Integer i)
             \<longrightarrow>
             (\<forall>c. c \<noteq> ''body_simulation'' \<longrightarrow>
                cell (columns (prisoner con)) (rows (prisoner con') ! k) c
                  = cell (columns (prisoner con)) (rows (prisoner con) ! k) c)
           \<and> cell (columns (prisoner con)) (rows (prisoner con') ! k) ''body_simulation''
               = Some (Blob bs)))"
proof -
  let ?cols = "columns (prisoner con)"
  let ?rows = "rows (prisoner con)"
  let ?rows' =
    "map (\<lambda>r. if has_id ?cols (Integer i) r
              then set_cell ?cols r ''body_simulation'' (Blob bs) else r) ?rows"
  let ?con' = "con\<lparr>prisoner := (prisoner con)\<lparr>rows := ?rows'\<rparr>\<rparr>"
  let ?cur = "\<lparr>rowcount = int (length (filter (has_id ?cols (Integer i)) ?rows))\<rparr>"
  have idc: "''id'' \<in> set ?cols"
    using assms(4) by (simp add: wf_prisoner_def)
  have b: "bindable (Blob bs)" "bindable (Integer i)"
    using assms(3) by (simp_all add: bindable_def)
  have saved: "save_prisoner con prisoner_dict = Inr (?cur, ?con')"
    using assms(1,2,5) idc b by (simp add: save_prisoner_def Let_def)
  have hid: "has_id ?cols (Integer i) = (\<lambda>r. cell ?cols r ''id'' = Some (Integer i))"
    by (rule ext) (rule has_id_Integer)
  have bsc: "False"
    if "k < length ?rows" "cell ?cols (?rows ! k) ''body_simulation'' = None" for k
    using that assms(5) wf_prisoner_row [OF assms(4), of "?rows ! k"]
      cell_Some_iff [of "?rows ! k" ?cols "''body_simulation''"] by simp
  have each: "\<forall>k<length ?rows.
          (\<not> has_id ?cols (Integer i) (?rows ! k) \<longrightarrow> ?rows' ! k = ?rows ! k)
        \<and> (has_id ?cols (Integer i) (?rows ! k) \<longrightarrow>
             (\<forall>c. c \<noteq> ''body_simulation'' \<longrightarrow> cell ?cols (?rows' ! k) c = cell ?cols (?rows ! k) c)
           \<and> cell ?cols (?rows' ! k) ''body_simulation'' = Some (Blob bs))"
    by (auto simp: cell_set_cell dest: bsc)
  show ?thesis
    apply (rule exI [where x = ?cur])
    apply (rule exI [where x = ?con'])
    using saved each apply (simp add: hid)
    done
qed

text \<open>The first prisoner of the sample database, saved with another blob.\<close>

theorem C7_save_prisoner_witness:
  "sample_prisoner ''body_simulation'' = Some (Blob truncated_blob)
   \<and> sample_prisoner ''id'' = Some (Integer 1)
   \<and> fits_int64 1
   \<and> wf_prisoner (prisoner sample_db)
   \<and> ''body_simulation'' \<in> set (columns (prisoner sample_db))
   \<and> (\<exists>cur con'. save_prisoner sample_db sample_prisoner = Inr (cur, con')
        \<and> rowcount cur = 1
        \<and> rows (prisoner con') ! 1 = rows (prisoner sample_db) ! 1
        \<and> cell (columns (prisoner sample_db)) (rows (prisoner con') ! 0) ''user_profile_id''
            = Some (Integer 10)
        \<and> cell (columns (prisoner sample_db)) (rows (prisoner con') ! 0) ''body_simulation''
            = Some (Blob truncated_blob))"
proof -
  let ?cols = "columns (prisoner sample_db)"
  let ?rows = "rows (prisoner sample_db)"
  have h1: "sample_prisoner ''body_simulation'' = Some (Blob truncated_blob)"
    by (simp add: sample_prisoner_def)
  have h2: "sample_prisoner ''id'' = Some (Integer 1)"
    by (simp add: sample_prisoner_def)
  have h3: "fits_int64 1"
    by (simp add: fits_int64_def)
  have h4: "wf_prisoner (prisoner sample_db)"
    by (simp add: wf_prisoner_def sample_db_def cell_def integer_id_def fits_int64_def)
  have h5: "''body_simulation'' \<in> set ?cols"
    by (simp add: sample_db_def)
  have n: "length (filter (\<lambda>r. cell ?cols r ''id'' = Some (Integer 1)) ?rows) = 1"
    "length ?rows = 2"
    by (simp_all add: sample_db_def cell_def)
  have a0: "cell ?cols (?rows ! 0) ''id'' = Some (Integer 1)"
    "cell ?cols (?rows ! 0) ''user_profile_id'' = Some (Integer 10)"
    by (simp_all add: sample_db_def cell_def)
  have a1: "cell ?cols (?rows ! 1) ''id'' \<noteq> Some (Integer 1)"
    by (simp add: sample_db_def cell_def)
  from C7_save_prisoner [where prisoner_dict = sample_prisoner and con = sample_db
      and bs = truncated_blob and i = 1, OF h1 h2 h3 h4 h5] obtain cur con' where
    s: "save_prisoner sample_db sample_prisoner = Inr (cur, con')" and
    c: "rowcount cur
          = int (length (filter (\<lambda>r. cell ?cols r ''id'' = Some (Integer 1)) ?rows))" and
    r: "\<And>k. k < length ?rows \<Longrightarrow>
          (cell ?cols (?rows ! k) ''id'' \<noteq> Some (Integer 1)
             \<longrightarrow> rows (prisoner con') ! k = ?rows ! k)
        \<and> (cell ?cols (?rows ! k) ''id'' = Some (Integer 1) \<longrightarrow>
             (\<forall>c. c \<noteq> ''body_simulation'' \<longrightarrow>
                cell ?cols (rows (prisoner con') ! k) c = cell ?cols (?rows ! k) c)
           \<and> cell ?cols (rows (prisoner con') ! k) ''body_simulation''
               = Some (Blob truncated_blob))"
    by blast
  have c1: "rowcount cur = 1" using c n by simp
  have "1 < length ?rows" using n by simp
  from r [OF this] a1 have r1: "rows (prisoner con') ! 1 = ?rows ! 1" by blast
  have "0 < length ?rows" using n by simp
  from r [OF this] a0(1) have r0:
    "\<forall>c. c \<noteq> ''body_simulation'' \<longrightarrow>
        cell ?cols (rows (prisoner con') ! 0) c = cell ?cols (?rows ! 0) c"
    "cell ?cols (rows (prisoner con') ! 0) ''body_simulation'' = Some (Blob truncated_blob)"
    by blast+
  have r0a: "cell ?cols (rows (prisoner con') ! 0) ''user_profile_id'' = Some (Integer 10)"
    using r0(1) a0(2) by simp
  from s c1 r1 r0a r0(2) have "\<exists>cur con'. save_prisoner sample_db sample_prisoner = Inr (cur, con')
        \<and> rowcount cur = 1
        \<and> rows (prisoner con') ! 1 = ?rows ! 1
        \<and> cell ?cols (rows (prisoner con') ! 0) ''user_profile_id'' = Some (Integer 10)
        \<and> cell ?cols (rows (prisoner con') ! 0) ''body_simulation''
            = Some (Blob truncated_blob)"
    by blast
  with h1 h2 h3 h4 h5 show ?thesis by (intro conjI)
qed

text \<open>
  C7 as stated fails for a record whose id no row has: no row is affected, and the
  call returns a cursor with \<open>rowcount = 0\<close> and leaves the database as it was; no
  error is signalled.
\<close>

theorem C7_counterexample:
  "wf_prisoner (prisoner sample_db)
   \<and> filter (\<lambda>r. cell (columns (prisoner sample_db)) r ''id'' = Some (Integer 7))
       (rows (prisoner sample_db)) = []
   \<and> absent_prisoner ''id'' = Some (Integer 7)
   \<and> absent_prisoner ''body_simulation'' = Some (Blob complete_blob)
   \<and> save_prisoner sample_db absent_prisoner = Inr (\<lparr>rowcount = 0\<rparr>, sample_db)"
proof -
  have "wf_prisoner (prisoner sample_db)"
    by (simp add: wf_prisoner_def sample_db_def cell_def integer_id_def fits_int64_def)
  moreover have "filter (\<lambda>r. cell (columns (prisoner sample_db)) r ''id'' = Some (Integer 7))
       (rows (prisoner sample_db)) = []"
    by (simp add: sample_db_def cell_def)
  moreover have "absent_prisoner ''id'' = Some (Integer 7)"
    by (simp add: absent_prisoner_def)
  moreover have "absent_prisoner ''body_simulation'' = Some (Blob complete_blob)"
    by (simp add: absent_prisoner_def)
  moreover have "save_prisoner sample_db absent_prisoner = Inr (\<lparr>rowcount = 0\<rparr>, sample_db)"
    by code_simp
  ultimately show ?thesis by (intro conjI)
qed

text \<open>
  C8, as amended. For an id that is a 64-bit integer, \<open>load_prisoner\<close> returns, for the
  one row with that id, the dictionary that maps every column name to the value of the
  row; when no row has the id it fails with the \<open>TypeError\<close> that \<open>zip\<close> raises on the
  \<open>None\<close> of \<open>fetchone\<close>. For an id outside 64 bits it fails with the \<open>OverflowError\<close> of
  the parameter binding. (There is no check for a missing record and no error of its
  own for it, as the counterexample below shows.)
\<close>

theorem C8_load_prisoner:
  assumes "wf_prisoner (prisoner con)"
  shows "(\<not> fits_int64 ident \<longrightarrow> load_prisoner con ident = Inl OverflowError)
       \<and> (fits_int64 ident \<longrightarrow>
            ((\<forall>r\<in>set (rows (prisoner con)).
                 cell (columns (prisoner con)) r ''id'' \<noteq> Some (Integer ident))
               \<longrightarrow> load_prisoner con ident = Inl TypeError)
          \<and> (\<forall>r. r \<in> set (rows (prisoner con))
                 \<and> cell (columns (prisoner con)) r ''id'' = Some (Integer ident)
                 \<and> (\<forall>r'\<in>set (rows (prisoner con)).
                       cell (columns (prisoner con)) r' ''id'' = Some (Integer ident)
                         \<longrightarrow> r' = r)
               \<longrightarrow> load_prisoner con ident = Inr (dict_of (zip (columns (prisoner con)) r))
                   \<and> (\<forall>c. dict_of (zip (columns (prisoner con)) r) c
                            = cell (columns (prisoner con)) r c)))"
proof -
  let ?cols = "columns (prisoner con)"
  let ?rows = "rows (prisoner con)"
  have idc: "''id'' \<in> set ?cols" and dist: "distinct ?cols"
    using assms by (simp_all add: wf_prisoner_def)
  have over: "load_prisoner con ident = Inl OverflowError" if "\<not> fits_int64 ident"
    using that idc by (simp add: load_prisoner_def bindable_def)
  have none: "load_prisoner con ident = Inl TypeError"
    if "fits_int64 ident" "\<forall>r\<in>set ?rows. cell ?cols r ''id'' \<noteq> Some (Integer ident)"
  proof -
    have "find (has_id ?cols (Integer ident)) ?rows = None"
      using that(2) by (simp add: find_None_iff has_id_Integer)
    then show ?thesis
      using that(1) idc by (simp add: load_prisoner_def bindable_def)
  qed
  have one: "load_prisoner con ident = Inr (dict_of (zip ?cols r))
      \<and> (\<forall>c. dict_of (zip ?cols r) c = cell ?cols r c)"
    if "fits_int64 ident" "r \<in> set ?rows" "cell ?cols r ''id'' = Some (Integer ident)"
      "\<forall>r'\<in>set ?rows. cell ?cols r' ''id'' = Some (Integer ident) \<longrightarrow> r' = r" for r
  proof -
    have "find (has_id ?cols (Integer ident)) ?rows = Some r"
    proof (rule find_unique)
      show "r \<in> set ?rows" by (rule that(2))
      show "has_id ?cols (Integer ident) r"
        using that(3) by (simp only: has_id_Integer)
      show "\<forall>r'\<in>set ?rows. has_id ?cols (Integer ident) r' \<longrightarrow> r' = r"
        using that(4) by (simp only: has_id_Integer)
    qed
    then have "load_prisoner con ident = Inr (dict_of (zip ?cols r))"
      using that(1) idc by (simp add: load_prisoner_def bindable_def)
    moreover have "distinct (map fst (zip ?cols r))"
      using dist by (simp add: map_fst_zip_take)
    then have "\<forall>c. dict_of (zip ?cols r) c = cell ?cols r c"
      by (simp add: dict_of_distinct cell_def)
    ultimately show ?thesis by simp
  qed
  show ?thesis
  proof (intro conjI impI allI)
    assume "\<not> fits_int64 ident"
    then show "load_prisoner con ident = Inl OverflowError" by (rule over)
  next
    assume "fits_int64 ident"
      and "\<forall>r\<in>set ?rows. cell ?cols r ''id'' \<noteq> Some (Integer ident)"
    then show "load_prisoner con ident = Inl TypeError" by (rule none)
  next
    fix r
    assume f: "fits_int64 ident"
      and a: "r \<in> set ?rows \<and> cell ?cols r ''id'' = Some (Integer ident)
        \<and> (\<forall>r'\<in>set ?rows. cell ?cols r' ''id'' = Some (Integer ident) \<longrightarrow> r' = r)"
    from a have a1: "r \<in> set ?rows" and a2: "cell ?cols r ''id'' = Some (Integer ident)"
      and a3: "\<forall>r'\<in>set ?rows. cell ?cols r' ''id'' = Some (Integer ident) \<longrightarrow> r' = r"
      by simp_all
    from one [OF f a1 a2 a3]
    show "load_prisoner con ident = Inr (dict_of (zip ?cols r))" by (rule conjunct1)
    fix c
    from one [OF f a1 a2 a3]
    show "dict_of (zip ?cols r) c = cell ?cols r c" by simp
  qed
qed

text \<open>
  The second prisoner of the sample database is loaded; no prisoner has the id 7; the
  id \<open>2 ** 63\<close> cannot be bound.
\<close>

theorem C8_load_prisoner_witness:
  "wf_prisoner (prisoner sample_db)
   \<and> \<not> fits_int64 9223372036854775808
   \<and> load_prisoner sample_db 9223372036854775808 = Inl OverflowError
   \<and> fits_int64 7
   \<and> filter (\<lambda>r. cell (columns (prisoner sample_db)) r ''id'' = Some (Integer 7))
       (rows (prisoner sample_db)) = []
   \<and> load_prisoner sample_db 7 = Inl TypeError
   \<and> fits_int64 2
   \<and> filter (\<lambda>r. cell (columns (prisoner sample_db)) r ''id'' = Some (Integer 2))
       (rows (prisoner sample_db))
       = [[Integer 2, Null, Blob truncated_blob]]
   \<and> load_prisoner sample_db 2
       = Inr (dict_of (zip (columns (prisoner sample_db))
                [Integer 2, Null, Blob truncated_blob]))
   \<and> dict_of (zip (columns (prisoner sample_db)) [Integer 2, Null, Blob truncated_blob])
       ''body_simulation'' = Some (Blob truncated_blob)"
proof -
  let ?cols = "columns (prisoner sample_db)"
  let ?rows = "rows (prisoner sample_db)"
  let ?r = "[Integer 2, Null, Blob truncated_blob]"
  have h: "wf_prisoner (prisoner sample_db)"
    by (simp add: wf_prisoner_def sample_db_def cell_def integer_id_def fits_int64_def)
  have b: "\<not> fits_int64 9223372036854775808" "fits_int64 7" "fits_int64 2"
    by (simp_all add: fits_int64_def)
  have n: "\<forall>r\<in>set ?rows. cell ?cols r ''id'' \<noteq> Some (Integer 7)"
    by (simp add: sample_db_def cell_def)
  have m1: "?r \<in> set ?rows"
    by (simp add: sample_db_def)
  have m2: "cell ?cols ?r ''id'' = Some (Integer 2)"
    by (simp add: sample_db_def cell_def)
  have m3: "\<forall>r'\<in>set ?rows. cell ?cols r' ''id'' = Some (Integer 2) \<longrightarrow> r' = ?r"
    by (simp add: sample_db_def cell_def)
  have c: "cell ?cols ?r ''body_simulation'' = Some (Blob truncated_blob)"
    by (simp add: sample_db_def cell_def)
  have c0: "load_prisoner sample_db 9223372036854775808 = Inl OverflowError"
    using C8_load_prisoner [OF h, of 9223372036854775808] b(1) by blast
  have c7: "load_prisoner sample_db 7 = Inl TypeError"
    using C8_load_prisoner [OF h, of 7] b(2) n by blast
  have c2: "load_prisoner sample_db 2 = Inr (dict_of (zip ?cols ?r))
      \<and> (\<forall>c. dict_of (zip ?cols ?r) c = cell ?cols ?r c)"
    using C8_load_prisoner [OF h, of 2] b(3) m1 m2 m3 by blast
  then have c2a: "load_prisoner sample_db 2 = Inr (dict_of (zip ?cols ?r))"
    and c2b: "dict_of (zip ?cols ?r) ''body_simulation'' = Some (Blob truncated_blob)"
    using c by simp_all
  have f7: "filter (\<lambda>r. cell ?cols r ''id'' = Some (Integer 7)) ?rows = []"
    by (simp add: sample_db_def cell_def)
  have f2: "filter (\<lambda>r. cell ?cols r ''id'' = Some (Integer 2)) ?rows = [?r]"
    by (simp add: sample_db_def cell_def)
  from h b c0 f7 c7 f2 c2a c2b show ?thesis by (intro conjI)
qed

text \<open>
  C8 as stated fails for an id that no record has: the call fails with Python's
  \<open>TypeError\<close>, raised by \<open>zip\<close>, and not with an error that says that the record was
  not found.
\<close>

theorem C8_counterexample:
  "wf_prisoner (prisoner sample_db)
   \<and> fits_int64 7
   \<and> filter (\<lambda>r. cell (columns (prisoner sample_db)) r ''id'' = Some (Integer 7))
       (rows (prisoner sample_db)) = []
   \<and> load_prisoner sample_db 7 = Inl TypeError"
proof -
  have "wf_prisoner (prisoner sample_db)"
    by (simp add: wf_prisoner_def sample_db_def cell_def integer_id_def fits_int64_def)
  moreover have "fits_int64 7"
    by (simp add: fits_int64_def)
  moreover have "filter (\<lambda>r. cell (columns (prisoner sample_db)) r ''id'' = Some (Integer 7))
       (rows (prisoner sample_db)) = []"
    by (simp add: sample_db_def cell_def)
  moreover have "load_prisoner sample_db 7 = Inl TypeError"
    by (simp add: load_prisoner_def sample_db_def has_id_def cell_def sql_eq_def
        bindable_def fits_int64_def)
  ultimately show ?thesis by (intro conjI)
qed

end
